theory Spec2Isabelle
  imports Main
begin

section \<open>Python values used by \<open>modules/imap_client.py\<close>\<close>

text \<open>
  A Python \<open>str\<close> and a Python \<open>bytes\<close> are both modelled as \<open>string\<close>. A character of
  HOL has 256 values, so text outside ASCII stands in its UTF-8 encoding: the fixed Cyrillic
  texts of the source are written below as their UTF-8 bytes. The operations the source
  applies to single characters (\<open>split("@")\<close>, \<open>html.escape\<close>, \<open>"\n".join\<close>) only look at
  ASCII characters, which UTF-8 never uses inside the encoding of another character.
  \<open>str.lower\<close> and \<open>str.strip\<close> depend on the Unicode tables and are taken from the
  record \<open>stdlib\<close> further down.
\<close>

type_synonym bytes = string

text \<open>
  Exceptions, by the classes the source distinguishes. \<open>IMAP4_error\<close> stands for
  \<open>imaplib.IMAP4.error\<close> and its subclasses, \<open>OSError\<close> for \<open>OSError\<close> and its subclasses
  (socket, TLS and timeout errors), \<open>OtherException cls msg\<close> for every other subclass of
  \<open>Exception\<close>. The string is what \<open>str(e)\<close> gives. Exceptions outside \<open>Exception\<close> (task
  cancellation, interpreter exit) are not modelled.
\<close>

datatype exc =
    MailAuthError string
  | IMAP4_error string
  | OSError string
  | OtherException string string

fun exc_str :: "exc \<Rightarrow> string" where
  "exc_str (MailAuthError msg) = msg"
| "exc_str (IMAP4_error msg) = msg"
| "exc_str (OSError msg) = msg"
| "exc_str (OtherException cls msg) = msg"

text \<open>\<open>f"{last_error}"\<close> for a value of type \<open>Optional[Exception]\<close>.\<close>

fun str_opt :: "exc option \<Rightarrow> string" where
  "str_opt None = ''None''"
| "str_opt (Some e) = exc_str e"

text \<open>\<open>xs[i]\<close> on a list: a negative index counts from the end, out of range raises.\<close>

definition py_index :: "'a list \<Rightarrow> int \<Rightarrow> exc + 'a" where
  "py_index xs i =
     (if 0 \<le> i \<and> i < int (length xs) then Inr (xs ! nat i)
      else if i < 0 \<and> - int (length xs) \<le> i then Inr (xs ! nat (int (length xs) + i))
      else Inl (OtherException ''IndexError'' ''list index out of range''))"

text \<open>
  \<open>xs[a:]\<close>: a negative start counts from the end and is clamped at the first element, a
  start past the end gives the empty list.
\<close>

definition py_slice_from :: "int \<Rightarrow> 'a list \<Rightarrow> 'a list" where
  "py_slice_from a xs =
     (let n = int (length xs); start = (if a < 0 then max (n + a) 0 else min a n)
      in drop (nat start) xs)"

text \<open>
  \<open>s.split(sep)\<close> for a separator of one character: the pieces between the occurrences of
  the separator, from left to right; \<open>cur\<close> is the piece being read.
\<close>

fun split_from :: "char \<Rightarrow> string \<Rightarrow> string \<Rightarrow> string list" where
  "split_from c cur [] = [cur]"
| "split_from c cur (x # xs) =
     (if x = c then cur # split_from c [] xs else split_from c (cur @ [x]) xs)"

definition py_split :: "string \<Rightarrow> char \<Rightarrow> string list" where
  "py_split s c = split_from c [] s"

text \<open>
  \<open>b.split()\<close> on bytes: the maximal runs of bytes that are not ASCII whitespace.
\<close>

definition is_ascii_space :: "char \<Rightarrow> bool" where
  "is_ascii_space c =
     (c = CHR '' '' \<or> c = CHR 0x09 \<or> c = CHR 0x0A \<or> c = CHR 0x0B \<or> c = CHR 0x0C \<or> c = CHR 0x0D)"

fun words_from :: "bytes \<Rightarrow> bytes \<Rightarrow> bytes list" where
  "words_from cur [] = (if cur = [] then [] else [cur])"
| "words_from cur (x # xs) =
     (if is_ascii_space x
      then (if cur = [] then words_from [] xs else cur # words_from [] xs)
      else words_from (cur @ [x]) xs)"

definition bytes_split :: "bytes \<Rightarrow> bytes list" where
  "bytes_split b = words_from [] b"

text \<open>\<open>sep.join(xs)\<close>.\<close>

fun py_join :: "string \<Rightarrow> string list \<Rightarrow> string" where
  "py_join sep [] = []"
| "py_join sep [x] = x"
| "py_join sep (x # y # ys) = x @ sep @ py_join sep (y # ys)"

text \<open>\<open>sub in s\<close> on strings.\<close>

fun py_in :: "string \<Rightarrow> string \<Rightarrow> bool" where
  "py_in sub [] = (sub = [])"
| "py_in sub (x # xs) = (take (length sub) (x # xs) = sub \<or> py_in sub xs)"

section \<open>Parsed messages: \<open>email.message.Message\<close>\<close>

text \<open>
  What \<open>Message.get(name)\<close> returns for a header that is present: a \<open>str\<close>, or, when the
  raw header has bytes outside ASCII, an \<open>email.header.Header\<close> object made of its text. A
  \<open>Header\<close> object is true in a condition and has no method \<open>lower\<close>.
\<close>

datatype header_value = Plain string | HeaderObject string

text \<open>
  What the source reads of a parsed message: \<open>get(name)\<close> (\<open>hdr\<close>), \<open>get_content_type()\<close>,
  \<open>get_content_charset()\<close>, and its payload. A message for which \<open>is_multipart()\<close> holds has
  a list of parts; any other message has the bytes \<open>get_payload(decode=True)\<close> returns, or
  \<open>None\<close>.
\<close>

datatype message =
    Leaf (hdr: "string \<Rightarrow> header_value option") (content_type: string)
      (content_charset: "string option") "bytes option"
  | Multipart (hdr: "string \<Rightarrow> header_value option") (content_type: string)
      (content_charset: "string option") "message list"

fun is_multipart :: "message \<Rightarrow> bool" where
  "is_multipart (Leaf h ct cs p) = False"
| "is_multipart (Multipart h ct cs ps) = True"

text \<open>\<open>get_payload(decode=True)\<close>: \<open>None\<close> for a multipart message.\<close>

fun get_payload_decoded :: "message \<Rightarrow> bytes option" where
  "get_payload_decoded (Leaf h ct cs p) = p"
| "get_payload_decoded (Multipart h ct cs ps) = None"

text \<open>\<open>get_content_maintype()\<close>: the content type up to its slash.\<close>

definition get_content_maintype :: "message \<Rightarrow> string" where
  "get_content_maintype m = takeWhile (\<lambda>c. c \<noteq> CHR ''/'') (content_type m)"

text \<open>\<open>walk()\<close>: the message itself, then the walk of each part in order.\<close>

fun walk :: "message \<Rightarrow> message list" where
  "walk (Leaf h ct cs p) = [Leaf h ct cs p]"
| "walk (Multipart h ct cs ps) = Multipart h ct cs ps # concat (map walk ps)"

section \<open>The standard library\<close>

text \<open>
  The functions of the standard library that the source calls and that are not modelled
  here: \<open>str.lower\<close>, \<open>str.strip\<close>, \<open>str(make_header(decode_header(v)))\<close> of \<open>email.header\<close>
  (it takes a \<open>str\<close> or a \<open>Header\<close> object, and may raise),
  \<open>bytes.decode(charset, errors="replace")\<close> (it raises \<open>LookupError\<close> on an unknown charset)
  and \<open>email.message_from_bytes\<close>. The part of the header decoder that is modelled is put
  in its place by \<open>with_email_header\<close> further down.
\<close>

record stdlib =
  str_lower :: "string \<Rightarrow> string"
  str_strip :: "string \<Rightarrow> string"
  decode_header_str :: "header_value \<Rightarrow> exc + string"
  bytes_decode :: "bytes \<Rightarrow> string \<Rightarrow> exc + string"
  message_from_bytes :: "bytes \<Rightarrow> message"

text \<open>
  \<open>html.escape(s)\<close> with its default \<open>quote=True\<close>: five replacements one after the other,
  the ampersand first.
\<close>

definition replace_char :: "char \<Rightarrow> string \<Rightarrow> string \<Rightarrow> string" where
  "replace_char c r s = concat (map (\<lambda>x. if x = c then r else [x]) s)"

definition html_escape :: "string \<Rightarrow> string" where
  "html_escape s =
     replace_char (CHR 0x27) ''&#x27;''
       (replace_char (CHR 0x22) ''&quot;''
         (replace_char CHR ''>'' ''&gt;''
           (replace_char CHR ''<'' ''&lt;''
             (replace_char CHR ''&'' ''&amp;'' s))))"

section \<open>Configuration: \<open>modules/imap_config.py\<close>\<close>

text \<open>
  Modelled from the spec: the module \<open>imap_config\<close> is imported by the source and is not
  among its files. The spec describes \<open>IMAP_SERVERS\<close> as a read-only mapping from a lowercase
  domain string to a single host; \<open>DEFAULT_PORT\<close> is the port passed to \<open>IMAP4_SSL\<close>. Both
  are parameters of the model.
\<close>

record imap_config =
  IMAP_SERVERS :: "string \<rightharpoonup> string"
  DEFAULT_PORT :: int

section \<open>The IMAP library and the client\<close>

text \<open>
  A transport handle is an \<open>imaplib.IMAP4_SSL\<close> object. It is named by the position, in the
  record of all calls, of the constructor call that made it, so that two objects never
  share a name.
\<close>

type_synonym handle = nat

datatype call =
    Call_IMAP4_SSL string int int
  | Call_login handle string string
  | Call_logout handle
  | Call_select handle string bool
  | Call_search handle string
  | Call_fetch handle bytes string

text \<open>
  An element of the \<open>data\<close> list that \<open>fetch\<close> returns: a pair of bytes (the envelope and
  the literal), a lone bytes value, or \<open>None\<close>.
\<close>

datatype fetch_item = Pair bytes bytes | Line bytes | Nothing

text \<open>
  The library's blocking calls. What a call answers may depend on every call made before
  it, so each function takes the calls made so far; this covers any server and any
  network. A call raises (\<open>Inl\<close>) or returns (\<open>Inr\<close>): the constructor a new object, the
  others the status \<open>typ\<close> with, for \<open>search\<close> and \<open>fetch\<close>, the list \<open>data\<close>.
\<close>

record imaplib =
  IMAP4_SSL :: "call list \<Rightarrow> string \<Rightarrow> int \<Rightarrow> int \<Rightarrow> exc + unit"
  login :: "call list \<Rightarrow> handle \<Rightarrow> string \<Rightarrow> string \<Rightarrow> exc + string"
  logout :: "call list \<Rightarrow> handle \<Rightarrow> exc + string"
  select :: "call list \<Rightarrow> handle \<Rightarrow> string \<Rightarrow> bool \<Rightarrow> exc + string"
  search :: "call list \<Rightarrow> handle \<Rightarrow> string \<Rightarrow> exc + string \<times> bytes option list"
  fetch :: "call list \<Rightarrow> handle \<Rightarrow> bytes \<Rightarrow> string \<Rightarrow> exc + string \<times> fetch_item list"

text \<open>The fields of an \<open>IMAPClient\<close>; \<open>connected_host\<close> is \<open>_connected_host\<close>.\<close>

record IMAPClient =
  email :: string
  password :: string
  timeout :: int
  server :: "handle option"
  connected_host :: "string option"

text \<open>\<open>IMAPClient.__init__\<close>; the source's default for \<open>timeout\<close> is 30.\<close>

definition init :: "string \<Rightarrow> string \<Rightarrow> int \<Rightarrow> IMAPClient" where
  "init email_addr pw t =
     \<lparr>email = email_addr, password = pw, timeout = t, server = None, connected_host = None\<rparr>"

text \<open>
  The state a method runs in: the instance \<open>self\<close>, the calls made to the library so far
  (oldest first) and, for the invariants, every value the instance has been assigned
  (oldest first).
\<close>

record machine =
  self :: IMAPClient
  net :: "call list"
  states :: "IMAPClient list"

definition issue :: "call \<Rightarrow> machine \<Rightarrow> machine" where
  "issue c m = m\<lparr>net := net m @ [c]\<rparr>"

definition assign :: "IMAPClient \<Rightarrow> machine \<Rightarrow> machine" where
  "assign v m = m\<lparr>self := v, states := states m @ [v]\<rparr>"

definition start :: "IMAPClient \<Rightarrow> machine" where
  "start v = \<lparr>self = v, net = [], states = [v]\<rparr>"

section \<open>The fixed texts of the source\<close>

text \<open>"No active IMAP connection."\<close>

definition NO_CONNECTION :: string where
  "NO_CONNECTION =
     [CHR 0xD0, CHR 0x9D, CHR 0xD0, CHR 0xB5, CHR 0xD1, CHR 0x82] @ '' '' @
     [CHR 0xD0, CHR 0xB0, CHR 0xD0, CHR 0xBA, CHR 0xD1, CHR 0x82, CHR 0xD0, CHR 0xB8,
      CHR 0xD0, CHR 0xB2, CHR 0xD0, CHR 0xBD, CHR 0xD0, CHR 0xBE, CHR 0xD0, CHR 0xB3,
      CHR 0xD0, CHR 0xBE] @ '' '' @
     [CHR 0xD1, CHR 0x81, CHR 0xD0, CHR 0xBE, CHR 0xD0, CHR 0xB5, CHR 0xD0, CHR 0xB4,
      CHR 0xD0, CHR 0xB8, CHR 0xD0, CHR 0xBD, CHR 0xD0, CHR 0xB5, CHR 0xD0, CHR 0xBD,
      CHR 0xD0, CHR 0xB8, CHR 0xD1, CHR 0x8F] @ '' IMAP.''"

text \<open>"Could not select the mailbox ", before the mailbox name.\<close>

definition SELECT_FAILED :: string where
  "SELECT_FAILED =
     [CHR 0xD0, CHR 0x9D, CHR 0xD0, CHR 0xB5] @ '' '' @
     [CHR 0xD1, CHR 0x83, CHR 0xD0, CHR 0xB4, CHR 0xD0, CHR 0xB0, CHR 0xD0, CHR 0xBB,
      CHR 0xD0, CHR 0xBE, CHR 0xD1, CHR 0x81, CHR 0xD1, CHR 0x8C] @ '' '' @
     [CHR 0xD0, CHR 0xB2, CHR 0xD1, CHR 0x8B, CHR 0xD0, CHR 0xB1, CHR 0xD1, CHR 0x80,
      CHR 0xD0, CHR 0xB0, CHR 0xD1, CHR 0x82, CHR 0xD1, CHR 0x8C] @ '' '' @
     [CHR 0xD1, CHR 0x8F, CHR 0xD1, CHR 0x89, CHR 0xD0, CHR 0xB8, CHR 0xD0, CHR 0xBA] @ '' ''"

text \<open>"Error searching for messages."\<close>

definition SEARCH_FAILED :: string where
  "SEARCH_FAILED =
     [CHR 0xD0, CHR 0x9E, CHR 0xD1, CHR 0x88, CHR 0xD0, CHR 0xB8, CHR 0xD0, CHR 0xB1,
      CHR 0xD0, CHR 0xBA, CHR 0xD0, CHR 0xB0] @ '' '' @
     [CHR 0xD0, CHR 0xBF, CHR 0xD0, CHR 0xBE, CHR 0xD0, CHR 0xB8, CHR 0xD1, CHR 0x81,
      CHR 0xD0, CHR 0xBA, CHR 0xD0, CHR 0xB0] @ '' '' @
     [CHR 0xD0, CHR 0xBF, CHR 0xD0, CHR 0xB8, CHR 0xD1, CHR 0x81, CHR 0xD0, CHR 0xB5,
      CHR 0xD0, CHR 0xBC] @ ''.''"

text \<open>"Could not log in to the mail on ", before the host.\<close>

definition LOGIN_FAILED :: string where
  "LOGIN_FAILED =
     [CHR 0xD0, CHR 0x9D, CHR 0xD0, CHR 0xB5] @ '' '' @
     [CHR 0xD1, CHR 0x83, CHR 0xD0, CHR 0xB4, CHR 0xD0, CHR 0xB0, CHR 0xD0, CHR 0xBB,
      CHR 0xD0, CHR 0xBE, CHR 0xD1, CHR 0x81, CHR 0xD1, CHR 0x8C] @ '' '' @
     [CHR 0xD0, CHR 0xB2, CHR 0xD0, CHR 0xBE, CHR 0xD0, CHR 0xB9, CHR 0xD1, CHR 0x82,
      CHR 0xD0, CHR 0xB8] @ '' '' @ [CHR 0xD0, CHR 0xB2] @ '' '' @
     [CHR 0xD0, CHR 0xBF, CHR 0xD0, CHR 0xBE, CHR 0xD1, CHR 0x87, CHR 0xD1, CHR 0x82,
      CHR 0xD1, CHR 0x83] @ '' '' @ [CHR 0xD0, CHR 0xBD, CHR 0xD0, CHR 0xB0] @ '' ''"

text \<open>"Could not connect to any IMAP host for ", before the address.\<close>

definition NO_HOST_FOR :: string where
  "NO_HOST_FOR =
     [CHR 0xD0, CHR 0x9D, CHR 0xD0, CHR 0xB5] @ '' '' @
     [CHR 0xD1, CHR 0x83, CHR 0xD0, CHR 0xB4, CHR 0xD0, CHR 0xB0, CHR 0xD0, CHR 0xBB,
      CHR 0xD0, CHR 0xBE, CHR 0xD1, CHR 0x81, CHR 0xD1, CHR 0x8C] @ '' '' @
     [CHR 0xD0, CHR 0xBF, CHR 0xD0, CHR 0xBE, CHR 0xD0, CHR 0xB4, CHR 0xD0, CHR 0xBA,
      CHR 0xD0, CHR 0xBB, CHR 0xD1, CHR 0x8E, CHR 0xD1, CHR 0x87, CHR 0xD0, CHR 0xB8,
      CHR 0xD1, CHR 0x82, CHR 0xD1, CHR 0x8C, CHR 0xD1, CHR 0x81, CHR 0xD1, CHR 0x8F] @ '' '' @
     [CHR 0xD0, CHR 0xBD, CHR 0xD0, CHR 0xB8] @ '' '' @ [CHR 0xD0, CHR 0xBA] @ '' '' @
     [CHR 0xD0, CHR 0xBE, CHR 0xD0, CHR 0xB4, CHR 0xD0, CHR 0xBD, CHR 0xD0, CHR 0xBE,
      CHR 0xD0, CHR 0xBC, CHR 0xD1, CHR 0x83] @ '' IMAP-'' @
     [CHR 0xD1, CHR 0x85, CHR 0xD0, CHR 0xBE, CHR 0xD1, CHR 0x81, CHR 0xD1, CHR 0x82,
      CHR 0xD1, CHR 0x83] @ '' '' @ [CHR 0xD0, CHR 0xB4, CHR 0xD0, CHR 0xBB, CHR 0xD1, CHR 0x8F] @
     '' ''"

text \<open>". Tried: ", before the hosts.\<close>

definition TRIED :: string where
  "TRIED =
     ''. '' @
     [CHR 0xD0, CHR 0x9F, CHR 0xD1, CHR 0x80, CHR 0xD0, CHR 0xBE, CHR 0xD0, CHR 0xB1,
      CHR 0xD0, CHR 0xBE, CHR 0xD0, CHR 0xB2, CHR 0xD0, CHR 0xB0, CHR 0xD0, CHR 0xBB,
      CHR 0xD0, CHR 0xB8] @ '': ''"

text \<open>". Last error: ", before the last error.\<close>

definition LAST_ERROR :: string where
  "LAST_ERROR =
     ''. '' @
     [CHR 0xD0, CHR 0x9F, CHR 0xD0, CHR 0xBE, CHR 0xD1, CHR 0x81, CHR 0xD0, CHR 0xBB,
      CHR 0xD0, CHR 0xB5, CHR 0xD0, CHR 0xB4, CHR 0xD0, CHR 0xBD, CHR 0xD1, CHR 0x8F,
      CHR 0xD1, CHR 0x8F] @ '' '' @
     [CHR 0xD0, CHR 0xBE, CHR 0xD1, CHR 0x88, CHR 0xD0, CHR 0xB8, CHR 0xD0, CHR 0xB1,
      CHR 0xD0, CHR 0xBA, CHR 0xD0, CHR 0xB0] @ '': ''"

section \<open>Candidate hosts\<close>

definition FALLBACK_HOSTS :: "string list" where
  "FALLBACK_HOSTS = [''imap.firstmail.ltd'', ''imap.notletters.com'']"

text \<open>
  \<open>IMAPClient._candidate_hosts\<close>. \<open>dict.get\<close> gives \<open>None\<close> for a missing key, and
  \<open>if host:\<close> is false for \<open>None\<close> and for the empty string.
\<close>

definition candidate_hosts :: "stdlib \<Rightarrow> imap_config \<Rightarrow> string \<Rightarrow> exc + string list" where
  "candidate_hosts py cfg email_addr =
     (case py_index (py_split email_addr CHR ''@'') (- 1) of
        Inl e \<Rightarrow> Inl e
      | Inr seg \<Rightarrow>
          (let domain = str_lower py (str_strip py seg);
               host = IMAP_SERVERS cfg domain
           in case host of
                None \<Rightarrow> Inr FALLBACK_HOSTS
              | Some h \<Rightarrow> if h \<noteq> [] then Inr [h] else Inr FALLBACK_HOSTS))"

text \<open>
  The spec's words for the lookup key: the substring after the last \<open>c\<close>, the whole string
  when \<open>c\<close> does not occur.
\<close>

definition after_last :: "char \<Rightarrow> string \<Rightarrow> string" where
  "after_last c s = (if c \<in> set s then rev (takeWhile (\<lambda>x. x \<noteq> c) (rev s)) else s)"

section \<open>Connecting\<close>

text \<open>
  One turn of the loop of \<open>IMAPClient.connect\<close>: the attempt on one host. It ends with the
  client connected (the method returns), with a failure that the loop records in
  \<open>last_error\<close> before it goes on, or with an exception that leaves the method.
\<close>

datatype attempt = Connected | Failed exc | Raised exc

text \<open>What \<open>except (imaplib.IMAP4.error, OSError)\<close> catches.\<close>

fun is_transport_error :: "exc \<Rightarrow> bool" where
  "is_transport_error (IMAP4_error msg) = True"
| "is_transport_error (OSError msg) = True"
| "is_transport_error (MailAuthError msg) = False"
| "is_transport_error (OtherException cls msg) = False"

text \<open>An exception raised inside the \<open>try\<close> of the loop body.\<close>

definition on_error :: "exc \<Rightarrow> machine \<Rightarrow> attempt \<times> machine" where
  "on_error e m =
     (if is_transport_error e
      then (Failed e, assign ((self m)\<lparr>server := None\<rparr>) m)
      else (Raised e, m))"

definition try_host :: "imap_config \<Rightarrow> imaplib \<Rightarrow> string \<Rightarrow> machine \<Rightarrow> attempt \<times> machine" where
  "try_host cfg lib host m =
     (let port = DEFAULT_PORT cfg; t = timeout (self m);
          opened = IMAP4_SSL lib (net m) host port t;
          m1 = issue (Call_IMAP4_SSL host port t) m
      in case opened of
           Inl e \<Rightarrow> on_error e m1
         | Inr u \<Rightarrow>
             (let h = length (net m);
                  m2 = assign ((self m1)\<lparr>server := Some h\<rparr>) m1;
                  user = email (self m2); pw = password (self m2);
                  logged = login lib (net m2) h user pw;
                  m3 = issue (Call_login h user pw) m2
              in case logged of
                   Inl e \<Rightarrow> on_error e m3
                 | Inr result \<Rightarrow>
                     if result = ''OK''
                     then (Connected, assign ((self m3)\<lparr>connected_host := Some host\<rparr>) m3)
                     else
                       (let m4 = (case logout lib (net m3) h of
                                    Inl e \<Rightarrow> issue (Call_logout h) m3
                                  | Inr r \<Rightarrow> issue (Call_logout h) m3);
                            m5 = assign ((self m4)\<lparr>server := None\<rparr>) m4
                        in (Failed (MailAuthError (LOGIN_FAILED @ host)), m5))))"

text \<open>How the \<open>for\<close> loop of \<open>connect\<close> ends.\<close>

datatype loop_exit = Return | Raise exc | Exhausted "exc option"

fun connect_loop ::
  "imap_config \<Rightarrow> imaplib \<Rightarrow> string list \<Rightarrow> exc option \<Rightarrow> machine \<Rightarrow> loop_exit \<times> machine" where
  "connect_loop cfg lib [] last_error m = (Exhausted last_error, m)"
| "connect_loop cfg lib (host # hosts) last_error m =
     (case try_host cfg lib host m of
        (Connected, m') \<Rightarrow> (Return, m')
      | (Raised e, m') \<Rightarrow> (Raise e, m')
      | (Failed e, m') \<Rightarrow> connect_loop cfg lib hosts (Some e) m')"

text \<open>
  \<open>IMAPClient.connect\<close>. The text of the final error calls \<open>_candidate_hosts\<close> again.
\<close>

definition connect :: "stdlib \<Rightarrow> imap_config \<Rightarrow> imaplib \<Rightarrow> machine \<Rightarrow> (exc + unit) \<times> machine" where
  "connect py cfg lib m =
     (case candidate_hosts py cfg (email (self m)) of
        Inl e \<Rightarrow> (Inl e, m)
      | Inr hosts \<Rightarrow>
          (case connect_loop cfg lib hosts None m of
             (Return, m') \<Rightarrow> (Inr (), m')
           | (Raise e, m') \<Rightarrow> (Inl e, m')
           | (Exhausted last_error, m') \<Rightarrow>
               (case candidate_hosts py cfg (email (self m')) of
                  Inl e \<Rightarrow> (Inl e, m')
                | Inr tried \<Rightarrow>
                    (Inl (MailAuthError
                       (NO_HOST_FOR @ email (self m') @ TRIED @ py_join '', '' tried @
                        LAST_ERROR @ str_opt last_error)), m'))))"

text \<open>
  \<open>IMAPClient.disconnect\<close>. Whatever \<open>logout\<close> returns or raises is only logged; the two
  assignments stand in the \<open>finally\<close> clause, inside \<open>if self.server:\<close>.
\<close>

definition disconnect :: "imaplib \<Rightarrow> machine \<Rightarrow> (exc + unit) \<times> machine" where
  "disconnect lib m =
     (case server (self m) of
        None \<Rightarrow> (Inr (), m)
      | Some h \<Rightarrow>
          (let m1 = (case logout lib (net m) h of
                       Inl e \<Rightarrow> issue (Call_logout h) m
                     | Inr r \<Rightarrow> issue (Call_logout h) m);
               m2 = assign ((self m1)\<lparr>server := None\<rparr>) m1;
               m3 = assign ((self m2)\<lparr>connected_host := None\<rparr>) m2
           in (Inr (), m3)))"

section \<open>Decoding a message\<close>

text \<open>
  \<open>IMAPClient._decode_maybe_encoded\<close>. On an exception it returns the value it was given,
  which may be a \<open>Header\<close> object.
\<close>

definition decode_maybe_encoded :: "stdlib \<Rightarrow> header_value option \<Rightarrow> header_value" where
  "decode_maybe_encoded py v =
     (case v of
        None \<Rightarrow> Plain []
      | Some raw \<Rightarrow>
          (case decode_header_str py raw of Inl e \<Rightarrow> raw | Inr s \<Rightarrow> Plain s))"

text \<open>\<open>x or "utf-8"\<close> and \<open>x or b""\<close>: \<open>None\<close> and the empty value give the default.\<close>

definition or_utf8 :: "string option \<Rightarrow> string" where
  "or_utf8 cs = (case cs of None \<Rightarrow> ''utf-8'' | Some c \<Rightarrow> if c = [] then ''utf-8'' else c)"

definition or_empty :: "bytes option \<Rightarrow> bytes" where
  "or_empty p = (case p of None \<Rightarrow> [] | Some b \<Rightarrow> b)"

text \<open>
  The condition \<open>disp and "attachment" in disp.lower()\<close>: an empty string is false and
  \<open>lower\<close> is not called; a \<open>Header\<close> object is true and has no \<open>lower\<close>.
\<close>

definition NO_LOWER :: exc where
  "NO_LOWER =
     OtherException ''AttributeError''
       (CHR 0x27 # ''Header'' @ [CHR 0x27] @ '' object has no attribute '' @
        [CHR 0x27] @ ''lower'' @ [CHR 0x27])"

fun is_attachment :: "stdlib \<Rightarrow> header_value \<Rightarrow> exc + bool" where
  "is_attachment py (Plain d) = Inr (d \<noteq> [] \<and> py_in ''attachment'' (str_lower py d))"
| "is_attachment py (HeaderObject d) = Inl NO_LOWER"

text \<open>
  The body of the loop over \<open>msg.walk()\<close> in \<open>IMAPClient._extract_bodies\<close>, with the two
  lists it appends to.
\<close>

fun collect_parts ::
  "stdlib \<Rightarrow> message list \<Rightarrow> string list \<Rightarrow> string list \<Rightarrow> exc + string list \<times> string list" where
  "collect_parts py [] plain_parts html_parts = Inr (plain_parts, html_parts)"
| "collect_parts py (part # rest) plain_parts html_parts =
     (let ctype = content_type part;
          disp = (case hdr part ''Content-Disposition'' of None \<Rightarrow> Plain [] | Some d \<Rightarrow> d)
      in if get_content_maintype part = ''multipart''
         then collect_parts py rest plain_parts html_parts
         else
           (case is_attachment py disp of
              Inl e \<Rightarrow> Inl e
            | Inr skip \<Rightarrow>
                if skip then collect_parts py rest plain_parts html_parts
                else
                  (let payload = get_payload_decoded part;
                       charset = or_utf8 (content_charset part);
                       decoded = (case bytes_decode py (or_empty payload) charset of
                                    Inl e \<Rightarrow> bytes_decode py (or_empty payload) ''utf-8''
                                  | Inr text \<Rightarrow> Inr text)
                   in case decoded of
                        Inl e \<Rightarrow> Inl e
                      | Inr text \<Rightarrow>
                          if ctype = ''text/plain''
                          then collect_parts py rest (plain_parts @ [text]) html_parts
                          else if ctype = ''text/html''
                          then collect_parts py rest plain_parts (html_parts @ [text])
                          else collect_parts py rest plain_parts html_parts)))"

text \<open>\<open>IMAPClient._extract_bodies\<close>: the plain text and the HTML of a message.\<close>

definition extract_bodies :: "stdlib \<Rightarrow> message \<Rightarrow> exc + string \<times> string" where
  "extract_bodies py msg =
     (let found =
        (if is_multipart msg then collect_parts py (walk msg) [] []
         else
           (let payload = get_payload_decoded msg;
                charset = or_utf8 (content_charset msg)
            in case bytes_decode py (or_empty payload) charset of
                 Inl e \<Rightarrow> Inl e
               | Inr text \<Rightarrow>
                   if content_type msg = ''text/html'' then Inr ([], [text])
                   else Inr ([text], [])))
      in case found of
           Inl e \<Rightarrow> Inl e
         | Inr (plain_parts, html_parts) \<Rightarrow>
             Inr (str_strip py (py_join [CHR 0x0A] plain_parts),
                  str_strip py (py_join [CHR 0x0A] html_parts)))"

text \<open>\<open>IMAPClient._plaintext_to_minimal_html\<close>.\<close>

definition PRE_OPEN :: string where
  "PRE_OPEN = ''<pre style='' @ [CHR 0x27] @ ''white-space:pre-wrap;margin:0'' @ [CHR 0x27] @ ''>''"

definition PRE_CLOSE :: string where
  "PRE_CLOSE = ''</pre>''"

definition plaintext_to_minimal_html :: "string \<Rightarrow> string" where
  "plaintext_to_minimal_html text = PRE_OPEN @ html_escape text @ PRE_CLOSE"

text \<open>
  The dictionary built for one message; \<open>sender\<close> and \<open>recipient\<close> are its keys \<open>"from"\<close>
  and \<open>"to"\<close>. A header field is a \<open>str\<close>, or the \<open>Header\<close> object that \<open>Message.get\<close>
  returned when it was passed on unchanged.
\<close>

record message_record =
  subject :: header_value
  sender :: header_value
  recipient :: header_value
  date :: header_value
  message_id :: header_value
  body_text :: string
  body_html :: string

text \<open>
  \<open>raw_email = data[0][1]\<close> followed by \<open>email.message_from_bytes(raw_email)\<close>. Indexing a
  bytes value gives an integer, which the parser refuses.
\<close>

fun raw_email_of :: "fetch_item \<Rightarrow> exc + bytes" where
  "raw_email_of (Pair envelope literal) = Inr literal"
| "raw_email_of (Line b) =
     (if length b < 2 then Inl (OtherException ''IndexError'' ''index out of range'')
      else Inl (OtherException ''AttributeError''
                  (CHR 0x27 # ''int'' @ [CHR 0x27] @ '' object has no attribute '' @
                   [CHR 0x27] @ ''decode'' @ [CHR 0x27])))"
| "raw_email_of Nothing =
     Inl (OtherException ''TypeError''
            (CHR 0x27 # ''NoneType'' @ [CHR 0x27] @ '' object is not subscriptable''))"

text \<open>
  The part of the loop body of \<open>IMAPClient.get_messages\<close> that turns the first element of
  \<open>data\<close> into the dictionary of the message.
\<close>

definition decode_message :: "stdlib \<Rightarrow> fetch_item \<Rightarrow> exc + message_record" where
  "decode_message py item =
     (case raw_email_of item of
        Inl e \<Rightarrow> Inl e
      | Inr raw_email \<Rightarrow>
          (let msg = message_from_bytes py raw_email;
               subject_v = decode_maybe_encoded py (hdr msg ''Subject'');
               from_v = decode_maybe_encoded py (hdr msg ''From'');
               to_v = decode_maybe_encoded py (hdr msg ''To'');
               date_v = decode_maybe_encoded py (hdr msg ''Date'');
               msg_id_val = (case hdr msg ''Message-ID'' of None \<Rightarrow> Plain [] | Some v \<Rightarrow> v)
           in case extract_bodies py msg of
                Inl e \<Rightarrow> Inl e
              | Inr (text, html) \<Rightarrow>
                  Inr \<lparr>subject = subject_v, sender = from_v, recipient = to_v, date = date_v,
                       message_id = msg_id_val, body_text = text,
                       body_html = (if html = [] \<and> text \<noteq> []
                                    then plaintext_to_minimal_html text else html)\<rparr>))"

section \<open>Fetching messages\<close>

text \<open>The loop over \<open>msg_ids\<close> in \<open>IMAPClient.get_messages\<close>.\<close>

fun fetch_loop ::
  "stdlib \<Rightarrow> imaplib \<Rightarrow> handle \<Rightarrow> string \<Rightarrow> bytes list \<Rightarrow> message_record list \<Rightarrow> machine \<Rightarrow>
   (exc + message_record list) \<times> machine" where
  "fetch_loop py lib h fetch_items [] messages m = (Inr messages, m)"
| "fetch_loop py lib h fetch_items (msg_id # rest) messages m =
     (let answer = fetch lib (net m) h msg_id fetch_items;
          m1 = issue (Call_fetch h msg_id fetch_items) m
      in case answer of
           Inl e \<Rightarrow> (Inl e, m1)
         | Inr (typ, data) \<Rightarrow>
             if typ \<noteq> ''OK'' then fetch_loop py lib h fetch_items rest messages m1
             else
               (case data of
                  [] \<Rightarrow> fetch_loop py lib h fetch_items rest messages m1
                | Nothing # others \<Rightarrow> fetch_loop py lib h fetch_items rest messages m1
                | item # others \<Rightarrow>
                    (case decode_message py item of
                       Inl e \<Rightarrow> (Inl e, m1)
                     | Inr r \<Rightarrow> fetch_loop py lib h fetch_items rest (messages @ [r]) m1)))"

text \<open>\<open>IMAPClient.get_messages\<close>; the source's defaults are \<open>"INBOX"\<close>, \<open>"ALL"\<close>, 50, \<open>False\<close>.\<close>

definition get_messages ::
  "stdlib \<Rightarrow> imaplib \<Rightarrow> string \<Rightarrow> string \<Rightarrow> int \<Rightarrow> bool \<Rightarrow> machine \<Rightarrow>
   (exc + message_record list) \<times> machine" where
  "get_messages py lib mailbox criteria limit mark_seen m =
     (case server (self m) of
        None \<Rightarrow> (Inl (MailAuthError NO_CONNECTION), m)
      | Some h \<Rightarrow>
          (let selected = select lib (net m) h mailbox True;
               m1 = issue (Call_select h mailbox True) m
           in case selected of
                Inl e \<Rightarrow> (Inl e, m1)
              | Inr typ \<Rightarrow>
                  if typ \<noteq> ''OK'' then (Inl (MailAuthError (SELECT_FAILED @ mailbox)), m1)
                  else
                    (let found = search lib (net m1) h criteria;
                         m2 = issue (Call_search h criteria) m1
                     in case found of
                          Inl e \<Rightarrow> (Inl e, m2)
                        | Inr (typ2, data) \<Rightarrow>
                            if typ2 \<noteq> ''OK'' then (Inl (MailAuthError SEARCH_FAILED), m2)
                            else
                              (case py_index data 0 of
                                 Inl e \<Rightarrow> (Inl e, m2)
                               | Inr first \<Rightarrow>
                                   (let msg_ids = bytes_split (or_empty first)
                                    in if msg_ids = [] then (Inr [], m2)
                                       else
                                         (let ids = py_slice_from (- limit) msg_ids;
                                              fetch_items =
                                                (if mark_seen then ''(RFC822)''
                                                 else ''(BODY.PEEK[])'')
                                          in case fetch_loop py lib h fetch_items ids [] m2 of
                                               (Inl e, m3) \<Rightarrow> (Inl e, m3)
                                             | (Inr messages, m3) \<Rightarrow>
                                                 (Inr (rev messages), m3)))))))"

section \<open>Reading escaped text back\<close>

text \<open>
  The spec speaks of unescaping the synthesized HTML body, which no function of the source
  does. \<open>html_unescape\<close> is that reading: it replaces the five character references that
  \<open>html.escape\<close> writes, from left to right, and leaves every other character as it is.
\<close>

fun html_unescape :: "string \<Rightarrow> string" where
  "html_unescape [] = []"
| "html_unescape (x # xs) =
     (if x = CHR ''&'' \<and> take 4 xs = ''amp;'' then CHR ''&'' # html_unescape (drop 4 xs)
      else if x = CHR ''&'' \<and> take 3 xs = ''lt;'' then CHR ''<'' # html_unescape (drop 3 xs)
      else if x = CHR ''&'' \<and> take 3 xs = ''gt;'' then CHR ''>'' # html_unescape (drop 3 xs)
      else if x = CHR ''&'' \<and> take 5 xs = ''quot;'' then CHR 0x22 # html_unescape (drop 5 xs)
      else if x = CHR ''&'' \<and> take 5 xs = ''#x27;'' then CHR 0x27 # html_unescape (drop 5 xs)
      else x # html_unescape xs)"

text \<open>The characters that \<open>html.escape\<close> replaces.\<close>

definition markup_significant :: "char \<Rightarrow> bool" where
  "markup_significant c =
     (c = CHR ''&'' \<or> c = CHR ''<'' \<or> c = CHR ''>'' \<or> c = CHR 0x22 \<or> c = CHR 0x27)"

text \<open>
  The spec's words for escaping: each markup-significant character is replaced by its
  character reference, every other character is kept.
\<close>

definition char_reference :: "char \<Rightarrow> string" where
  "char_reference c =
     (if markup_significant c
      then (if c = CHR ''&'' then ''&amp;''
            else if c = CHR ''<'' then ''&lt;''
            else if c = CHR ''>'' then ''&gt;''
            else if c = CHR 0x22 then ''&quot;''
            else ''&#x27;'')
      else [c])"

section \<open>Observations on a run\<close>

text \<open>The calls a method adds to the calls made before it.\<close>

definition new_calls :: "machine \<Rightarrow> machine \<Rightarrow> call list" where
  "new_calls before after = drop (length (net before)) (net after)"


text \<open>The messages fetched by a list of calls, in order.\<close>

fun ids_fetched :: "call list \<Rightarrow> bytes list" where
  "ids_fetched [] = []"
| "ids_fetched (Call_fetch h msg_id items # cs) = msg_id # ids_fetched cs"
| "ids_fetched (c # cs) = ids_fetched cs"

text \<open>
  The transport handles that are live after a list of calls: the objects whose constructor
  call returned and on which \<open>logout\<close> has not been called since. A handle is named by the
  position of its constructor call, and the library answered that call on the calls made
  before it.
\<close>

definition opened :: "imaplib \<Rightarrow> call list \<Rightarrow> handle \<Rightarrow> bool" where
  "opened lib calls h =
     (h < length calls \<and>
      (case calls ! h of
         Call_IMAP4_SSL host port t \<Rightarrow>
           (case IMAP4_SSL lib (take h calls) host port t of Inl e \<Rightarrow> False | Inr u \<Rightarrow> True)
       | Call_login h' user pw \<Rightarrow> False
       | Call_logout h' \<Rightarrow> False
       | Call_select h' mailbox readonly \<Rightarrow> False
       | Call_search h' criteria \<Rightarrow> False
       | Call_fetch h' msg_id items \<Rightarrow> False))"

definition live_handles :: "imaplib \<Rightarrow> call list \<Rightarrow> handle list" where
  "live_handles lib calls =
     filter (\<lambda>h. opened lib calls h \<and> Call_logout h \<notin> set calls) [0..<length calls]"



text \<open>
  Two states that differ at most in the host binding of the instance and in the record of
  the values it has taken.
\<close>

definition same_login :: "machine \<Rightarrow> machine \<Rightarrow> bool" where
  "same_login m1 m2 =
     (net m1 = net m2 \<and> email (self m1) = email (self m2) \<and>
      password (self m1) = password (self m2) \<and> timeout (self m1) = timeout (self m2) \<and>
      server (self m1) = server (self m2))"

text \<open>
  A call of \<open>get_messages\<close> keeps to the seen flags: it selects the given mailbox
  read-only, searches, and fetches with \<open>BODY.PEEK[]\<close> unless \<open>mark_seen\<close> is set, when it
  fetches with \<open>RFC822\<close>; it makes no other call.
\<close>

fun keeps_seen_flags :: "string \<Rightarrow> bool \<Rightarrow> call \<Rightarrow> bool" where
  "keeps_seen_flags mailbox mark_seen (Call_select h mb readonly) = (mb = mailbox \<and> readonly)"
| "keeps_seen_flags mailbox mark_seen (Call_search h criteria) = True"
| "keeps_seen_flags mailbox mark_seen (Call_fetch h msg_id items) =
     (if mark_seen then items = ''(RFC822)'' else items = ''(BODY.PEEK[])'')"
| "keeps_seen_flags mailbox mark_seen (Call_IMAP4_SSL host port t) = False"
| "keeps_seen_flags mailbox mark_seen (Call_login h user pw) = False"
| "keeps_seen_flags mailbox mark_seen (Call_logout h) = False"

section \<open>The header decoder of the standard library\<close>

text \<open>
  \<open>str(make_header(decode_header(v)))\<close> of CPython's \<open>email.header\<close>, for two kinds of
  \<open>str\<close> values \<open>v\<close>. A value in which \<open>=?\<close> does not occur holds no encoded word and is
  returned as it is. A value that is one encoded word \<open>=?utf-8?b?data?=\<close> or
  \<open>=?utf-8?q?data?=\<close> (charset and encoding letter in either case, \<open>data\<close> made of
  printable ASCII characters other than \<open>?\<close>) is decoded in three steps: base64
  (\<open>binascii.a2b_base64\<close> after the missing padding is added) or Q
  (\<open>email.quoprimime.header_decode\<close>), then UTF-8, strictly. For every other value the
  decoder stays a parameter.
\<close>

text \<open>\<open>c.lower()\<close> for an ASCII character.\<close>

definition lower_char :: "char \<Rightarrow> char" where
  "lower_char c =
     (case map_of (zip ''ABCDEFGHIJKLMNOPQRSTUVWXYZ'' ''abcdefghijklmnopqrstuvwxyz'') c of
        None \<Rightarrow> c
      | Some d \<Rightarrow> d)"

definition b64_alphabet :: string where
  "b64_alphabet = ''ABCDEFGHIJKLMNOPQRSTUVWXYZabcdefghijklmnopqrstuvwxyz0123456789+/''"

definition b64_value :: "char \<Rightarrow> nat option" where
  "b64_value c = map_of (zip b64_alphabet [0..<64]) c"

text \<open>
  The loop of \<open>binascii.a2b_base64\<close> outside strict mode. A character that is neither \<open>=\<close>
  nor in the alphabet is skipped. Padding that completes a group ends the decoding, and
  what follows it is not read. The result is \<open>None\<close> where the function raises
  \<open>binascii.Error\<close>: at the end of the input inside a group. The bits that the source joins
  with a bitwise or never overlap, so they are added here.
\<close>

fun a2b_loop :: "nat \<Rightarrow> nat \<Rightarrow> nat \<Rightarrow> bytes \<Rightarrow> string \<Rightarrow> bytes option" where
  "a2b_loop quad_pos leftchar pads out [] = (if quad_pos = 0 then Some out else None)"
| "a2b_loop quad_pos leftchar pads out (c # cs) =
     (if c = CHR ''=''
      then (if 2 \<le> quad_pos \<and> 4 \<le> quad_pos + (pads + 1) then Some out
            else a2b_loop quad_pos leftchar (if 2 \<le> quad_pos then pads + 1 else pads) out cs)
      else
        (case b64_value c of
           None \<Rightarrow> a2b_loop quad_pos leftchar pads out cs
         | Some v \<Rightarrow>
             if quad_pos = 0 then a2b_loop 1 v 0 out cs
             else if quad_pos = 1
             then a2b_loop 2 (v mod 16) 0 (out @ [char_of (leftchar * 4 + v div 16)]) cs
             else if quad_pos = 2
             then a2b_loop 3 (v mod 4) 0 (out @ [char_of (leftchar * 16 + v div 4)]) cs
             else a2b_loop 0 0 0 (out @ [char_of (leftchar * 64 + v)]) cs))"

text \<open>
  The base64 branch of \<open>decode_header\<close>: \<open>encoded_string += '==='[:4 - paderr]\<close> when the
  length is not a multiple of 4, then \<open>a2b_base64\<close>.
\<close>

definition pad_base64 :: "string \<Rightarrow> string" where
  "pad_base64 s = (if length s mod 4 = 0 then s else s @ take (4 - length s mod 4) ''==='')"

definition b_decode :: "string \<Rightarrow> bytes option" where
  "b_decode encoded = a2b_loop 0 0 0 [] (pad_base64 encoded)"

text \<open>
  \<open>email.quoprimime.header_decode\<close>: an underscore is a space, and \<open>=\<close> followed by two
  hexadecimal digits is the byte they name.
\<close>

definition hex_value :: "char \<Rightarrow> nat option" where
  "hex_value c =
     map_of (zip ''0123456789abcdefABCDEF''
               [0, 1, 2, 3, 4, 5, 6, 7, 8, 9, 10, 11, 12, 13, 14, 15, 10, 11, 12, 13, 14, 15]) c"

fun q_decode :: "string \<Rightarrow> bytes" where
  "q_decode [] = []"
| "q_decode (c # cs) =
     (if c = CHR ''_'' then CHR '' '' # q_decode cs
      else if c = CHR ''=''
      then (case cs of
              h1 # h2 # rest \<Rightarrow>
                (case (hex_value h1, hex_value h2) of
                   (Some a, Some b) \<Rightarrow> char_of (16 * a + b) # q_decode rest
                 | _ \<Rightarrow> c # q_decode cs)
            | _ \<Rightarrow> c # q_decode cs)
      else c # q_decode cs)"

text \<open>
  The byte strings that \<open>bytes.decode("utf-8")\<close> accepts: no overlong form, no surrogate,
  nothing above U+10FFFF.
\<close>

definition in_range :: "nat \<Rightarrow> char \<Rightarrow> nat \<Rightarrow> bool" where
  "in_range lo c hi = (lo \<le> of_char c \<and> (of_char c :: nat) \<le> hi)"

fun valid_utf8 :: "bytes \<Rightarrow> bool" where
  "valid_utf8 [] = True"
| "valid_utf8 (c # cs) =
     (if in_range 0x00 c 0x7F then valid_utf8 cs
      else if in_range 0xC2 c 0xDF
      then (case cs of
              c1 # rest \<Rightarrow> in_range 0x80 c1 0xBF \<and> valid_utf8 rest
            | _ \<Rightarrow> False)
      else if in_range 0xE0 c 0xEF
      then (case cs of
              c1 # c2 # rest \<Rightarrow>
                in_range (if in_range 0xE0 c 0xE0 then 0xA0 else 0x80) c1
                         (if in_range 0xED c 0xED then 0x9F else 0xBF) \<and>
                in_range 0x80 c2 0xBF \<and> valid_utf8 rest
            | _ \<Rightarrow> False)
      else if in_range 0xF0 c 0xF4
      then (case cs of
              c1 # c2 # c3 # rest \<Rightarrow>
                in_range (if in_range 0xF0 c 0xF0 then 0x90 else 0x80) c1
                         (if in_range 0xF4 c 0xF4 then 0x8F else 0xBF) \<and>
                in_range 0x80 c2 0xBF \<and> in_range 0x80 c3 0xBF \<and> valid_utf8 rest
            | _ \<Rightarrow> False)
      else False)"

text \<open>
  A value that is exactly one encoded word with the charset UTF-8: its encoding letter and
  its data.
\<close>

definition encoded_word :: "string \<Rightarrow> (char \<times> string) option" where
  "encoded_word s =
     (let charset = takeWhile (\<lambda>c. c \<noteq> CHR ''?'') (drop 2 s);
          after_charset = dropWhile (\<lambda>c. c \<noteq> CHR ''?'') (drop 2 s)
      in case after_charset of
           q1 # e # q2 # after_encoding \<Rightarrow>
             (let encoded = takeWhile (\<lambda>c. c \<noteq> CHR ''?'') after_encoding
              in if take 2 s = ''=?'' \<and> map lower_char charset = ''utf-8'' \<and>
                    e \<in> set ''bBqQ'' \<and> q2 = CHR ''?'' \<and>
                    dropWhile (\<lambda>c. c \<noteq> CHR ''?'') after_encoding = ''?='' \<and>
                    list_all (\<lambda>c. in_range 0x20 c 0x7E) encoded
                 then Some (e, encoded) else None)
         | _ \<Rightarrow> None)"

text \<open>
  The exceptions of the decoder: \<open>email.errors.HeaderParseError\<close> from \<open>decode_header\<close> and
  \<open>UnicodeDecodeError\<close> from \<open>Header.append\<close>. The text of the second names the offending
  byte and is not modelled; the source drops both.
\<close>

definition HEADER_PARSE_ERROR :: exc where
  "HEADER_PARSE_ERROR = OtherException ''HeaderParseError'' ''Base64 decoding error''"

definition UNICODE_DECODE_ERROR :: exc where
  "UNICODE_DECODE_ERROR = OtherException ''UnicodeDecodeError'' []"

text \<open>The modelled part of the decoder; \<open>None\<close> for a value outside it.\<close>

definition email_header_str :: "string \<Rightarrow> (exc + string) option" where
  "email_header_str s =
     (if py_in ''=?'' s
      then (case encoded_word s of
              None \<Rightarrow> None
            | Some (e, encoded) \<Rightarrow>
                (case (if e = CHR ''b'' \<or> e = CHR ''B'' then b_decode encoded
                       else Some (q_decode encoded)) of
                   None \<Rightarrow> Some (Inl HEADER_PARSE_ERROR)
                 | Some word \<Rightarrow>
                     if valid_utf8 word then Some (Inr word)
                     else Some (Inl UNICODE_DECODE_ERROR)))
      else Some (Inr s))"

text \<open>A standard library whose header decoder is the modelled one wherever that applies.\<close>

definition with_email_header :: "stdlib \<Rightarrow> stdlib" where
  "with_email_header py =
     py\<lparr>decode_header_str :=
          (\<lambda>v. case v of
                  Plain s \<Rightarrow>
                    (case email_header_str s of
                       None \<Rightarrow> decode_header_str py v
                     | Some r \<Rightarrow> r)
                | HeaderObject s \<Rightarrow> decode_header_str py v)\<rparr>"

text \<open>
  The spec's well-formed encoded word: base64 as RFC 4648 writes it, three bytes to four
  characters, padded with \<open>=\<close>.
\<close>

definition b64_char :: "nat \<Rightarrow> char" where
  "b64_char n = b64_alphabet ! n"

fun b64encode :: "bytes \<Rightarrow> string" where
  "b64encode [] = []"
| "b64encode [a] =
     [b64_char (of_char a div 4), b64_char (of_char a mod 4 * 16), CHR ''='', CHR ''='']"
| "b64encode [a, b] =
     [b64_char (of_char a div 4), b64_char (of_char a mod 4 * 16 + of_char b div 16),
      b64_char (of_char b mod 16 * 4), CHR ''='']"
| "b64encode (a # b # c # rest) =
     [b64_char (of_char a div 4), b64_char (of_char a mod 4 * 16 + of_char b div 16),
      b64_char (of_char b mod 16 * 4 + of_char c div 64), b64_char (of_char c mod 64)] @
     b64encode rest"

definition utf8_b_word :: "bytes \<Rightarrow> string" where
  "utf8_b_word t = ''=?utf-8?b?'' @ b64encode t @ ''?=''"

section \<open>Concrete environments\<close>

text \<open>
  A small standard library for closed examples: it lowers the letters A to Z, strips ASCII
  whitespace, returns a header as it is unless the header starts an encoded word, whose
  charset it does not know, decodes UTF-8 and ASCII bytes to themselves, and parses a
  message as one plain-text part whose body is the whole input and whose charset is
  \<open>x-unknown\<close> when the input starts with \<open>?\<close>.
\<close>

definition ascii_strip :: "string \<Rightarrow> string" where
  "ascii_strip s = rev (dropWhile is_ascii_space (rev (dropWhile is_ascii_space s)))"

definition py_ascii :: stdlib where
  "py_ascii =
     \<lparr>str_lower = map lower_char,
      str_strip = ascii_strip,
      decode_header_str =
        (\<lambda>v. case v of
                Plain s \<Rightarrow>
                  if take 2 s = ''=?''
                  then Inl (OtherException ''LookupError'' ''unknown encoding'')
                  else Inr s
              | HeaderObject s \<Rightarrow> Inr s),
      bytes_decode =
        (\<lambda>b charset. if charset = ''utf-8'' \<or> charset = ''ascii'' then Inr b
                      else Inl (OtherException ''LookupError'' (''unknown encoding: '' @ charset))),
      message_from_bytes =
        (\<lambda>raw. Leaf (\<lambda>name. None) ''text/plain''
                  (if take 1 raw = ''?'' then Some ''x-unknown'' else None) (Some raw))\<rparr>"

definition cfg_gmail :: imap_config where
  "cfg_gmail = \<lparr>IMAP_SERVERS = [''gmail.com'' \<mapsto> ''imap.gmail.com''], DEFAULT_PORT = 993\<rparr>"

text \<open>
  A server that accepts everything. Its mailbox holds the messages 1, 2 and 3; fetching
  message \<open>n\<close> gives the literal \<open>mail n\<close>.
\<close>

definition lib_ok :: imaplib where
  "lib_ok =
     \<lparr>IMAP4_SSL = (\<lambda>calls host port t. Inr ()),
      login = (\<lambda>calls h user pw. Inr ''OK''),
      logout = (\<lambda>calls h. Inr ''BYE''),
      select = (\<lambda>calls h mailbox readonly. Inr ''OK''),
      search = (\<lambda>calls h criteria. Inr (''OK'', [Some ''1 2 3''])),
      fetch = (\<lambda>calls h msg_id items.
                 Inr (''OK'', [Pair (msg_id @ '' (RFC822 {6}'') (''mail '' @ msg_id), Line '')'']))\<rparr>"

text \<open>
  A network on which the first fallback host cannot be reached and the second one rejects
  the login by a status other than \<open>OK\<close>, and then fails the logout as well.
\<close>

definition lib_failing :: imaplib where
  "lib_failing =
     lib_ok
       \<lparr>IMAP4_SSL := (\<lambda>calls host port t.
                        if host = ''imap.firstmail.ltd'' then Inl (OSError ''timed out'')
                        else Inr ()),
        login := (\<lambda>calls h user pw. Inr ''NO''),
        logout := (\<lambda>calls h. Inl (IMAP4_error ''connection closed''))\<rparr>"


text \<open>
  Servers that accept the connection and reject the password the way \<open>imaplib\<close> reports
  it: \<open>login\<close> raises \<open>IMAP4.error\<close>.
\<close>

definition lib_wrong_password :: imaplib where
  "lib_wrong_password =
     lib_ok
       \<lparr>login := (\<lambda>calls h user pw.
                    Inl (IMAP4_error ''[AUTHENTICATIONFAILED] Invalid credentials''))\<rparr>"

text \<open>A network that accepts the first connection ever made and refuses every later one.\<close>

definition lib_once :: imaplib where
  "lib_once =
     lib_ok
       \<lparr>IMAP4_SSL := (\<lambda>calls host port t.
                        if calls = [] then Inr () else Inl (OSError ''connection refused''))\<rparr>"

text \<open>A server on which the fetch of message 2 answers \<open>NO\<close> and that of message 3 nothing.\<close>

definition lib_gaps :: imaplib where
  "lib_gaps =
     lib_ok
       \<lparr>fetch := (\<lambda>calls h msg_id items.
                    if msg_id = ''2'' then Inr (''NO'', [Nothing])
                    else if msg_id = ''3'' then Inr (''OK'', [Nothing])
                    else Inr (''OK'', [Pair [] (''mail '' @ msg_id)]))\<rparr>"

text \<open>A client that has connected to \<open>lib_ok\<close>: handle 0 is the object of call 0.\<close>

definition connected_client :: machine where
  "connected_client =
     \<lparr>self = (init ''user@example.org'' ''secret'' 30)
               \<lparr>server := Some 0, connected_host := Some ''imap.firstmail.ltd''\<rparr>,
      net = [Call_IMAP4_SSL ''imap.firstmail.ltd'' 993 30,
             Call_login 0 ''user@example.org'' ''secret''],
      states = []\<rparr>"

text \<open>
  The record that \<open>py_ascii\<close> and the servers above give for a message whose literal is the
  plain text \<open>text\<close>.
\<close>

definition plain_record :: "string \<Rightarrow> message_record" where
  "plain_record text =
     \<lparr>subject = Plain [], sender = Plain [], recipient = Plain [], date = Plain [],
      message_id = Plain [],
      body_text = text, body_html = plaintext_to_minimal_html text\<rparr>"

text \<open>
  A server on which message 2 is a single-part message that names a charset Python does
  not know.
\<close>

definition lib_unknown_charset :: imaplib where
  "lib_unknown_charset =
     lib_ok
       \<lparr>fetch := (\<lambda>calls h msg_id items.
                    if msg_id = ''2'' then Inr (''OK'', [Pair [] ''?mail 2''])
                    else Inr (''OK'', [Pair [] (''mail '' @ msg_id)]))\<rparr>"

section \<open>The lookup key of an address\<close>

lemma split_from_nonempty: "split_from c cur s \<noteq> []"
  by (induction s arbitrary: cur) auto

lemma last_split_from:
  "last (split_from c cur s) = (if c \<in> set s then after_last c s else cur @ s)"
proof (induction s arbitrary: cur)
  case Nil
  then show ?case by simp
next
  case (Cons x xs)
  show ?case
  proof (cases "x = c")
    case True
    then show ?thesis
      using Cons.IH [of "[]"] split_from_nonempty [of c "[]" xs]
      by (auto simp: after_last_def takeWhile_append)
  next
    case False
    then show ?thesis
      using Cons.IH [of "cur @ [x]"]
      by (auto simp: after_last_def takeWhile_append)
  qed
qed

lemma py_index_last: "xs \<noteq> [] \<Longrightarrow> py_index xs (- 1) = Inr (last xs)"
  by (cases xs rule: rev_cases) (auto simp: py_index_def nth_append)

lemma last_segment: "py_index (py_split s c) (- 1) = Inr (after_last c s)"
  using last_split_from [of c "[]" s] split_from_nonempty [of c "[]" s]
  by (simp add: py_split_def py_index_last after_last_def)

lemma after_last_decompose:
  "c \<notin> set suffix \<Longrightarrow> after_last c (pre @ c # suffix) = suffix"
  by (simp add: after_last_def takeWhile_append takeWhile_eq_all_conv[THEN iffD2])

lemma domain_gmail:
  "str_lower py_ascii (str_strip py_ascii (after_last CHR ''@'' ''User@GMail.com ''))
     = ''gmail.com''"
  by (simp add: py_ascii_def ascii_strip_def is_ascii_space_def after_last_def lower_char_def)

lemma domain_example:
  "str_lower py_ascii (str_strip py_ascii (after_last CHR ''@'' ''user@example.org''))
     = ''example.org''"
  by (simp add: py_ascii_def ascii_strip_def is_ascii_space_def after_last_def lower_char_def)

section \<open>Candidate hosts: properties\<close>

text \<open>
  C10. For every address string the candidate hosts are computed without an exception:
  the result is never \<open>Inl\<close>. The key looked up in the table is the lowercased, stripped
  text after the last \<open>@\<close> of the address, and the whole address, lowercased and
  stripped, when it has no \<open>@\<close>. Neither \<open>__init__\<close> nor \<open>connect\<close> checks the number of
  \<open>@\<close> in the address.
\<close>

theorem candidate_hosts_total:
  "candidate_hosts py cfg email_addr =
     Inr (case IMAP_SERVERS cfg (str_lower py (str_strip py (after_last CHR ''@'' email_addr))) of
            None \<Rightarrow> FALLBACK_HOSTS
          | Some h \<Rightarrow> if h \<noteq> [] then [h] else FALLBACK_HOSTS) \<and>
   email (init email_addr pw t) = email_addr \<and>
   (CHR ''@'' \<notin> set suffix \<longrightarrow> after_last CHR ''@'' (pre @ CHR ''@'' # suffix) = suffix) \<and>
   (CHR ''@'' \<notin> set email_addr \<longrightarrow> after_last CHR ''@'' email_addr = email_addr)"
proof -
  have "candidate_hosts py cfg email_addr =
     Inr (case IMAP_SERVERS cfg (str_lower py (str_strip py (after_last CHR ''@'' email_addr))) of
            None \<Rightarrow> FALLBACK_HOSTS
          | Some h \<Rightarrow> if h \<noteq> [] then [h] else FALLBACK_HOSTS)"
    by (simp add: candidate_hosts_def last_segment Let_def split: option.splits)
  moreover have "email (init email_addr pw t) = email_addr"
    by (simp add: init_def)
  moreover have "CHR ''@'' \<notin> set email_addr \<longrightarrow> after_last CHR ''@'' email_addr = email_addr"
    by (simp add: after_last_def)
  ultimately show ?thesis
    using after_last_decompose [of "CHR ''@''" suffix pre] by blast
qed

theorem candidate_hosts_total_witness:
  "candidate_hosts py_ascii cfg_gmail ''no-at-sign''
     = Inr [''imap.firstmail.ltd'', ''imap.notletters.com''] \<and>
   candidate_hosts py_ascii cfg_gmail ''a@b@gmail.com'' = Inr [''imap.gmail.com''] \<and>
   after_last CHR ''@'' ''a@b@gmail.com'' = ''gmail.com'' \<and>
   after_last CHR ''@'' ''no-at-sign'' = ''no-at-sign''"
  using candidate_hosts_total [of py_ascii cfg_gmail "''no-at-sign''" "[]" 30 "''gmail.com''" "''a@b''"]
        candidate_hosts_total [of py_ascii cfg_gmail "''a@b@gmail.com''" "[]" 30 "[]" "[]"]
  by (simp add: cfg_gmail_def py_ascii_def ascii_strip_def is_ascii_space_def lower_char_def
      FALLBACK_HOSTS_def)

text \<open>
  C4. The table maps a domain to a host identifier, which is never the empty string. Then
  for an address whose lookup key (the lowercased, stripped text after its last \<open>@\<close>) is
  in the table, the candidate list has exactly one entry, the mapped host; for an address
  whose lookup key is not in the table, the candidate list is the two fallback hosts in
  their fixed order.
\<close>

theorem candidate_hosts_cases:
  "[] \<notin> ran (IMAP_SERVERS cfg) \<Longrightarrow>
   (IMAP_SERVERS cfg (str_lower py (str_strip py (after_last CHR ''@'' email_addr))) = Some h
      \<longrightarrow> candidate_hosts py cfg email_addr = Inr [h]) \<and>
   (IMAP_SERVERS cfg (str_lower py (str_strip py (after_last CHR ''@'' email_addr))) = None
      \<longrightarrow> candidate_hosts py cfg email_addr
            = Inr [''imap.firstmail.ltd'', ''imap.notletters.com''])"
proof -
  assume hosts: "[] \<notin> ran (IMAP_SERVERS cfg)"
  let ?key = "str_lower py (str_strip py (after_last CHR ''@'' email_addr))"
  have "h \<noteq> []" if "IMAP_SERVERS cfg ?key = Some h"
    using that hosts by (auto simp: ran_def)
  then show ?thesis
    by (auto simp: candidate_hosts_def last_segment FALLBACK_HOSTS_def)
qed

theorem candidate_hosts_cases_witness:
  "[] \<notin> ran (IMAP_SERVERS cfg_gmail) \<and>
   IMAP_SERVERS cfg_gmail
     (str_lower py_ascii (str_strip py_ascii (after_last CHR ''@'' ''User@GMail.com '')))
     = Some ''imap.gmail.com'' \<and>
   candidate_hosts py_ascii cfg_gmail ''User@GMail.com '' = Inr [''imap.gmail.com''] \<and>
   IMAP_SERVERS cfg_gmail
     (str_lower py_ascii (str_strip py_ascii (after_last CHR ''@'' ''user@example.org''))) = None \<and>
   candidate_hosts py_ascii cfg_gmail ''user@example.org''
     = Inr [''imap.firstmail.ltd'', ''imap.notletters.com'']"
proof -
  have table: "[] \<notin> ran (IMAP_SERVERS cfg_gmail)"
    by (simp add: cfg_gmail_def)
  show ?thesis
    using candidate_hosts_cases [OF table, of py_ascii "''User@GMail.com ''" "''imap.gmail.com''"]
          candidate_hosts_cases [OF table, of py_ascii "''user@example.org''" "[]"]
          table
    by (simp add: domain_gmail domain_example cfg_gmail_def)
qed

section \<open>Connecting: properties\<close>










lemma candidate_hosts_returns: "\<exists>hosts. candidate_hosts py cfg a = Inr hosts"
  by (cases "IMAP_SERVERS cfg (str_lower py (str_strip py (after_last CHR ''@'' a)))")
     (simp_all add: candidate_hosts_def last_segment)

lemma try_host_fields:
  assumes "try_host cfg lib host m = (a, m')"
  shows "email (self m') = email (self m) \<and> password (self m') = password (self m) \<and>
         timeout (self m') = timeout (self m)"
  using assms
  by (auto simp: try_host_def on_error_def Let_def issue_def assign_def
      split: sum.splits if_splits)

lemma try_host_connected_net:
  assumes "try_host cfg lib host m = (Connected, m')"
  shows "net m' = net m @ [Call_IMAP4_SSL host (DEFAULT_PORT cfg) (timeout (self m)),
                           Call_login (length (net m)) (email (self m)) (password (self m))] \<and>
         server (self m') = Some (length (net m))"
  using assms
  by (auto simp: try_host_def on_error_def Let_def issue_def assign_def
      split: sum.splits if_splits)

lemma connect_loop_return:
  "connect_loop cfg lib hosts last_error m = (Return, m') \<Longrightarrow>
     \<exists>pre host. net m' = pre @ [Call_IMAP4_SSL host (DEFAULT_PORT cfg) (timeout (self m)),
                                Call_login (length pre) (email (self m)) (password (self m))] \<and>
                server (self m') = Some (length pre)"
proof (induction hosts arbitrary: last_error m)
  case Nil
  then show ?case by simp
next
  case (Cons host hosts)
  obtain a m1 where t: "try_host cfg lib host m = (a, m1)" by (cases "try_host cfg lib host m")
  show ?case
  proof (cases a)
    case Connected
    with Cons.prems t have "m' = m1" by simp
    with Connected t show ?thesis using try_host_connected_net by blast
  next
    case (Raised e)
    with Cons.prems t show ?thesis by simp
  next
    case (Failed c)
    with Cons.prems t have "connect_loop cfg lib hosts (Some c) m1 = (Return, m')" by simp
    from Cons.IH [OF this] try_host_fields [OF t] show ?thesis by simp
  qed
qed

lemma ok_loop:
  "connect_loop cfg_gmail lib_ok [''imap.firstmail.ltd'', ''imap.notletters.com''] None
        (start (init ''user@example.org'' ''secret'' 30))
   = (Return,
      \<lparr>self = \<lparr>email = ''user@example.org'', password = ''secret'', timeout = 30,
                server = Some 0, connected_host = Some ''imap.firstmail.ltd''\<rparr>,
        net = [Call_IMAP4_SSL ''imap.firstmail.ltd'' 993 30,
               Call_login 0 ''user@example.org'' ''secret''],
        states = [init ''user@example.org'' ''secret'' 30,
                  \<lparr>email = ''user@example.org'', password = ''secret'', timeout = 30,
                    server = Some 0, connected_host = None\<rparr>,
                  \<lparr>email = ''user@example.org'', password = ''secret'', timeout = 30,
                    server = Some 0, connected_host = Some ''imap.firstmail.ltd''\<rparr>]\<rparr>)"
  by (simp add: try_host_def on_error_def lib_ok_def cfg_gmail_def start_def init_def
      issue_def assign_def Let_def)

lemma hosts_example:
  "candidate_hosts py_ascii cfg_gmail ''user@example.org''
     = Inr [''imap.firstmail.ltd'', ''imap.notletters.com'']"
  by (simp add: candidate_hosts_def last_segment domain_example cfg_gmail_def FALLBACK_HOSTS_def)

lemma connect_ok:
  "connect py_ascii cfg_gmail lib_ok (start (init ''user@example.org'' ''secret'' 30))
   = (Inr (),
      \<lparr>self = \<lparr>email = ''user@example.org'', password = ''secret'', timeout = 30,
                server = Some 0, connected_host = Some ''imap.firstmail.ltd''\<rparr>,
        net = [Call_IMAP4_SSL ''imap.firstmail.ltd'' 993 30,
               Call_login 0 ''user@example.org'' ''secret''],
        states = [init ''user@example.org'' ''secret'' 30,
                  \<lparr>email = ''user@example.org'', password = ''secret'', timeout = 30,
                    server = Some 0, connected_host = None\<rparr>,
                  \<lparr>email = ''user@example.org'', password = ''secret'', timeout = 30,
                    server = Some 0, connected_host = Some ''imap.firstmail.ltd''\<rparr>]\<rparr>)"
proof -
  have "email (self (start (init ''user@example.org'' ''secret'' 30))) = ''user@example.org''"
    by (simp add: start_def init_def)
  then show ?thesis
    by (simp add: connect_def hosts_example ok_loop del: connect_loop.simps)
qed











text \<open>
  The two ways an attempt is rejected after the constructor has returned. When \<open>login\<close>
  raises an error of the transport, the new connection is dropped without a \<open>logout\<close> and
  stays live; when \<open>login\<close> returns a status other than \<open>OK\<close>, \<open>logout\<close> is called on it.
\<close>

lemma try_host_login_raised_live:
  assumes "IMAP4_SSL lib (net m) host (DEFAULT_PORT cfg) (timeout (self m)) = Inr u"
    and "login lib (net m @ [Call_IMAP4_SSL host (DEFAULT_PORT cfg) (timeout (self m))])
           (length (net m)) (email (self m)) (password (self m)) = Inl e"
    and "is_transport_error e"
    and "Call_logout (length (net m)) \<notin> set (net m)"
  shows "fst (try_host cfg lib host m) = Failed e \<and>
         server (self (snd (try_host cfg lib host m))) = None \<and>
         net (snd (try_host cfg lib host m))
           = net m @ [Call_IMAP4_SSL host (DEFAULT_PORT cfg) (timeout (self m)),
                      Call_login (length (net m)) (email (self m)) (password (self m))] \<and>
         length (net m) \<in> set (live_handles lib (net (snd (try_host cfg lib host m))))"
proof -
  have run: "try_host cfg lib host m =
      (Failed e, assign ((self m)\<lparr>server := None\<rparr>)
         (issue (Call_login (length (net m)) (email (self m)) (password (self m)))
            (assign ((self m)\<lparr>server := Some (length (net m))\<rparr>)
               (issue (Call_IMAP4_SSL host (DEFAULT_PORT cfg) (timeout (self m))) m))))"
    using assms(1-3) by (simp add: try_host_def on_error_def Let_def issue_def assign_def)
  show ?thesis
    using assms(1,4)
    by (simp add: run issue_def assign_def live_handles_def opened_def nth_append)
qed

lemma try_host_login_rejected_closed:
  assumes "IMAP4_SSL lib (net m) host (DEFAULT_PORT cfg) (timeout (self m)) = Inr u"
    and "login lib (net m @ [Call_IMAP4_SSL host (DEFAULT_PORT cfg) (timeout (self m))])
           (length (net m)) (email (self m)) (password (self m)) = Inr result"
    and "result \<noteq> ''OK''"
  shows "fst (try_host cfg lib host m) = Failed (MailAuthError (LOGIN_FAILED @ host)) \<and>
         server (self (snd (try_host cfg lib host m))) = None \<and>
         length (net m) \<notin> set (live_handles lib (net (snd (try_host cfg lib host m))))"
  using assms
  by (auto simp: try_host_def Let_def issue_def assign_def live_handles_def split: sum.splits)

lemma wrong_password_loop:
  "fst (connect_loop cfg_gmail lib_wrong_password [''imap.firstmail.ltd'', ''imap.notletters.com'']
          None (start (init ''user@example.org'' ''secret'' 30)))
     = Exhausted (Some (IMAP4_error ''[AUTHENTICATIONFAILED] Invalid credentials'')) \<and>
   net (snd (connect_loop cfg_gmail lib_wrong_password
               [''imap.firstmail.ltd'', ''imap.notletters.com''] None
               (start (init ''user@example.org'' ''secret'' 30))))
     = [Call_IMAP4_SSL ''imap.firstmail.ltd'' 993 30, Call_login 0 ''user@example.org'' ''secret'',
        Call_IMAP4_SSL ''imap.notletters.com'' 993 30, Call_login 2 ''user@example.org'' ''secret''] \<and>
   self (snd (connect_loop cfg_gmail lib_wrong_password
                [''imap.firstmail.ltd'', ''imap.notletters.com''] None
                (start (init ''user@example.org'' ''secret'' 30))))
     = init ''user@example.org'' ''secret'' 30"
  by (simp add: try_host_def on_error_def lib_wrong_password_def lib_ok_def cfg_gmail_def
      start_def init_def issue_def assign_def Let_def)

lemma wrong_password_live:
  "live_handles lib_wrong_password
     [Call_IMAP4_SSL ''imap.firstmail.ltd'' 993 30, Call_login 0 ''user@example.org'' ''secret'',
      Call_IMAP4_SSL ''imap.notletters.com'' 993 30] = [0, 2] \<and>
   live_handles lib_wrong_password
     [Call_IMAP4_SSL ''imap.firstmail.ltd'' 993 30, Call_login 0 ''user@example.org'' ''secret'',
      Call_IMAP4_SSL ''imap.notletters.com'' 993 30, Call_login 2 ''user@example.org'' ''secret'']
      = [0, 2]"
  by (simp add: live_handles_def opened_def lib_wrong_password_def lib_ok_def)


text \<open>
  C6, on two servers that accept the connection and reject the password. The address has
  an unmapped domain, so \<open>connect\<close> tries the two fallback hosts. On each host the
  constructor returns a connection and \<open>login\<close> raises \<open>IMAP4.error\<close>; the handler of
  \<open>except (imaplib.IMAP4.error, OSError)\<close> sets \<open>self.server = None\<close> and goes on to the
  next host without a \<open>logout\<close> on the connection it drops. When the second constructor
  call has returned, the connections 0 and 2 are both live, and they still are when
  \<open>connect\<close> has raised and the instance holds no handle at all. The branch for a login
  that returns a status other than \<open>OK\<close> calls \<open>logout\<close> before the next host is tried.
\<close>

theorem connect_two_live_handles:
  "fst (connect py_ascii cfg_gmail lib_wrong_password
          (start (init ''user@example.org'' ''secret'' 30)))
     = Inl (MailAuthError
         (NO_HOST_FOR @ ''user@example.org'' @ TRIED @ ''imap.firstmail.ltd, imap.notletters.com'' @
          LAST_ERROR @ ''[AUTHENTICATIONFAILED] Invalid credentials'')) \<and>
   net (snd (connect py_ascii cfg_gmail lib_wrong_password
               (start (init ''user@example.org'' ''secret'' 30))))
     = [Call_IMAP4_SSL ''imap.firstmail.ltd'' 993 30, Call_login 0 ''user@example.org'' ''secret'',
        Call_IMAP4_SSL ''imap.notletters.com'' 993 30, Call_login 2 ''user@example.org'' ''secret''] \<and>
   live_handles lib_wrong_password
     [Call_IMAP4_SSL ''imap.firstmail.ltd'' 993 30, Call_login 0 ''user@example.org'' ''secret'',
      Call_IMAP4_SSL ''imap.notletters.com'' 993 30] = [0, 2] \<and>
   live_handles lib_wrong_password
     (net (snd (connect py_ascii cfg_gmail lib_wrong_password
                  (start (init ''user@example.org'' ''secret'' 30))))) = [0, 2] \<and>
   server (self (snd (connect py_ascii cfg_gmail lib_wrong_password
                        (start (init ''user@example.org'' ''secret'' 30))))) = None"
proof -
  let ?m = "start (init ''user@example.org'' ''secret'' 30)"
  let ?hosts = "[''imap.firstmail.ltd'', ''imap.notletters.com'']"
  let ?calls = "[Call_IMAP4_SSL ''imap.firstmail.ltd'' 993 30,
        Call_login 0 ''user@example.org'' ''secret'',
        Call_IMAP4_SSL ''imap.notletters.com'' 993 30, Call_login 2 ''user@example.org'' ''secret'']"
  obtain x m1 where l: "connect_loop cfg_gmail lib_wrong_password ?hosts None ?m = (x, m1)"
    by (cases "connect_loop cfg_gmail lib_wrong_password ?hosts None ?m")
  have x: "x = Exhausted (Some (IMAP4_error ''[AUTHENTICATIONFAILED] Invalid credentials''))"
    and calls: "net m1 = ?calls"
    and inst: "self m1 = init ''user@example.org'' ''secret'' 30"
    using wrong_password_loop unfolding l fst_conv snd_conv by blast+
  have mail: "email (self ?m) = ''user@example.org''"
    by (simp add: start_def init_def)
  have mail': "email (self m1) = ''user@example.org''"
    by (simp add: inst init_def)
  have result: "connect py_ascii cfg_gmail lib_wrong_password ?m =
      (Inl (MailAuthError
         (NO_HOST_FOR @ ''user@example.org'' @ TRIED @ ''imap.firstmail.ltd, imap.notletters.com'' @
          LAST_ERROR @ ''[AUTHENTICATIONFAILED] Invalid credentials'')), m1)"
    by (simp add: connect_def mail mail' hosts_example l x del: connect_loop.simps)
  have none: "server (self m1) = None"
    by (simp add: inst init_def)
  show ?thesis
    unfolding result fst_conv snd_conv calls using wrong_password_live none
    by simp
qed

section \<open>Disconnecting: properties\<close>

lemma try_host_same_login:
  assumes "same_login m1 m2"
  shows "fst (try_host cfg lib host m1) = fst (try_host cfg lib host m2) \<and>
         same_login (snd (try_host cfg lib host m1)) (snd (try_host cfg lib host m2))"
  using assms
  by (auto simp: same_login_def try_host_def on_error_def Let_def issue_def assign_def
      split: sum.splits)

lemma connect_loop_same_login:
  "same_login m1 m2 \<Longrightarrow>
     fst (connect_loop cfg lib hosts last_error m1) = fst (connect_loop cfg lib hosts last_error m2) \<and>
     same_login (snd (connect_loop cfg lib hosts last_error m1))
                (snd (connect_loop cfg lib hosts last_error m2))"
proof (induction hosts arbitrary: last_error m1 m2)
  case Nil
  then show ?case by simp
next
  case (Cons host hosts)
  obtain a n1 where t1: "try_host cfg lib host m1 = (a, n1)" by (cases "try_host cfg lib host m1")
  obtain b n2 where t2: "try_host cfg lib host m2 = (b, n2)" by (cases "try_host cfg lib host m2")
  from try_host_same_login [OF Cons.prems, of cfg lib host] t1 t2
  have "b = a" and n: "same_login n1 n2" by simp_all
  with t2 have t2': "try_host cfg lib host m2 = (a, n2)" by simp
  show ?case
  proof (cases a)
    case Connected
    with t1 t2' n show ?thesis by simp
  next
    case (Raised e)
    with t1 t2' n show ?thesis by simp
  next
    case (Failed c)
    with t1 t2' Cons.IH [OF n, of "Some c"] show ?thesis by simp
  qed
qed

lemma connect_same_login:
  assumes "same_login m1 m2"
  shows "fst (connect py cfg lib m1) = fst (connect py cfg lib m2) \<and>
         same_login (snd (connect py cfg lib m1)) (snd (connect py cfg lib m2))"
proof -
  obtain hosts where h2: "candidate_hosts py cfg (email (self m2)) = Inr hosts"
    using candidate_hosts_returns by blast
  with assms have h1: "candidate_hosts py cfg (email (self m1)) = Inr hosts"
    by (simp add: same_login_def)
  obtain x n1 where l1: "connect_loop cfg lib hosts None m1 = (x, n1)"
    by (cases "connect_loop cfg lib hosts None m1")
  obtain y n2 where l2: "connect_loop cfg lib hosts None m2 = (y, n2)"
    by (cases "connect_loop cfg lib hosts None m2")
  from connect_loop_same_login [OF assms, of cfg lib hosts None] l1 l2
  have "x = y" and n: "same_login n1 n2" by simp_all
  with l1 have l1': "connect_loop cfg lib hosts None m1 = (y, n1)" by simp
  from n have mail: "email (self n1) = email (self n2)" by (simp add: same_login_def)
  obtain tried where t2: "candidate_hosts py cfg (email (self n2)) = Inr tried"
    using candidate_hosts_returns by blast
  with mail have t1: "candidate_hosts py cfg (email (self n1)) = Inr tried" by simp
  show ?thesis
    using h1 h2 l1' l2 n mail t1 t2
    by (cases y) (simp_all add: connect_def)
qed

lemma disconnect_returns: "fst (disconnect lib m) = Inr ()"
  by (simp add: disconnect_def Let_def split: option.splits)

lemma disconnect_server: "server (self (snd (disconnect lib m))) = None"
  by (simp add: disconnect_def Let_def issue_def assign_def split: option.splits sum.splits)

lemma disconnect_held:
  "server (self m) = Some h \<Longrightarrow>
     self (snd (disconnect lib m)) = (self m)\<lparr>server := None, connected_host := None\<rparr> \<and>
     net (snd (disconnect lib m)) = net m @ [Call_logout h]"
  by (simp add: disconnect_def Let_def issue_def assign_def split: sum.splits)

lemma disconnect_idle: "server (self m) = None \<Longrightarrow> disconnect lib m = (Inr (), m)"
  by (simp add: disconnect_def)

text \<open>
  C9, as amended. \<open>disconnect\<close> never raises, whatever \<open>logout\<close> returns or raises, and
  after it the instance holds no transport handle. When a handle was held, \<open>disconnect\<close>
  makes the one call \<open>logout\<close> on it and leaves the instance equal to a newly constructed
  one with the same address, password and timeout (host binding cleared). When no handle
  was held, \<open>disconnect\<close> does nothing at all; calling it twice in a row is therefore the
  same as calling it once. In every case a \<open>connect\<close> that follows returns or raises what
  it does on a newly constructed instance in the same surroundings, makes the same calls
  and ends with the same transport handle.
\<close>

theorem disconnect_clears:
  "fst (disconnect lib m) = Inr () \<and>
   server (self (snd (disconnect lib m))) = None \<and>
   (server (self m) = Some h \<longrightarrow>
      new_calls m (snd (disconnect lib m)) = [Call_logout h] \<and>
      self (snd (disconnect lib m)) = init (email (self m)) (password (self m)) (timeout (self m))) \<and>
   (server (self m) = None \<longrightarrow> disconnect lib m = (Inr (), m)) \<and>
   disconnect lib2 (snd (disconnect lib m)) = (Inr (), snd (disconnect lib m)) \<and>
   fst (connect py cfg lib2 (snd (disconnect lib m)))
     = fst (connect py cfg lib2
         ((snd (disconnect lib m))
            \<lparr>self := init (email (self m)) (password (self m)) (timeout (self m))\<rparr>)) \<and>
   same_login
     (snd (connect py cfg lib2 (snd (disconnect lib m))))
     (snd (connect py cfg lib2
         ((snd (disconnect lib m))
            \<lparr>self := init (email (self m)) (password (self m)) (timeout (self m))\<rparr>)))"
proof -
  let ?d = "snd (disconnect lib m)"
  let ?f = "?d\<lparr>self := init (email (self m)) (password (self m)) (timeout (self m))\<rparr>"
  have cleared: "self ?d = init (email (self m)) (password (self m)) (timeout (self m))"
    if "server (self m) = Some h"
    using disconnect_held [OF that, of lib] by (simp add: init_def)
  have logout_only: "new_calls m ?d = [Call_logout h]" if "server (self m) = Some h"
    using disconnect_held [OF that, of lib] by (simp add: new_calls_def)
  have twice: "disconnect lib2 ?d = (Inr (), ?d)"
    using disconnect_server [of lib m] by (rule disconnect_idle)
  have kept: "email (self ?d) = email (self m) \<and> password (self ?d) = password (self m) \<and>
              timeout (self ?d) = timeout (self m)"
    by (cases "server (self m)") (simp_all add: disconnect_idle disconnect_held)
  have "same_login ?d ?f"
    using kept disconnect_server [of lib m] by (simp add: same_login_def init_def)
  from connect_same_login [OF this, of py cfg lib2]
  have again: "fst (connect py cfg lib2 ?d) = fst (connect py cfg lib2 ?f) \<and>
               same_login (snd (connect py cfg lib2 ?d)) (snd (connect py cfg lib2 ?f))" .
  show ?thesis
    using disconnect_returns [of lib m] disconnect_server [of lib m] disconnect_idle [of m lib]
      cleared logout_only twice again
    by blast
qed

lemma connected_client_server: "server (self connected_client) = Some 0"
  by (simp add: connected_client_def init_def)

theorem disconnect_clears_witness:
  "server (self connected_client) = Some 0 \<and>
   logout lib_failing (net connected_client) 0 = Inl (IMAP4_error ''connection closed'') \<and>
   fst (disconnect lib_failing connected_client) = Inr () \<and>
   new_calls connected_client (snd (disconnect lib_failing connected_client)) = [Call_logout 0] \<and>
   self (snd (disconnect lib_failing connected_client)) = init ''user@example.org'' ''secret'' 30 \<and>
   server (self (start (init ''user@example.org'' ''secret'' 30))) = None \<and>
   disconnect lib_ok (start (init ''user@example.org'' ''secret'' 30))
     = (Inr (), start (init ''user@example.org'' ''secret'' 30))"
  using disconnect_clears [of lib_failing connected_client 0 lib_ok py_ascii cfg_gmail]
        disconnect_clears [of lib_ok "start (init ''user@example.org'' ''secret'' 30)" 0 lib_ok
                             py_ascii cfg_gmail]
        connected_client_server
  by (simp add: connected_client_def init_def start_def lib_failing_def lib_ok_def)

lemma once_loop_first:
  "connect_loop cfg_gmail lib_once [''imap.firstmail.ltd'', ''imap.notletters.com''] None
        (start (init ''user@example.org'' ''secret'' 30))
   = (Return,
      \<lparr>self = \<lparr>email = ''user@example.org'', password = ''secret'', timeout = 30,
                server = Some 0, connected_host = Some ''imap.firstmail.ltd''\<rparr>,
        net = [Call_IMAP4_SSL ''imap.firstmail.ltd'' 993 30,
               Call_login 0 ''user@example.org'' ''secret''],
        states = [init ''user@example.org'' ''secret'' 30,
                  \<lparr>email = ''user@example.org'', password = ''secret'', timeout = 30,
                    server = Some 0, connected_host = None\<rparr>,
                  \<lparr>email = ''user@example.org'', password = ''secret'', timeout = 30,
                    server = Some 0, connected_host = Some ''imap.firstmail.ltd''\<rparr>]\<rparr>)"
  by (simp add: try_host_def on_error_def lib_once_def lib_ok_def cfg_gmail_def start_def init_def
      issue_def assign_def Let_def)

lemma connect_snd:
  assumes "candidate_hosts py cfg (email (self m)) = Inr hosts"
  shows "snd (connect py cfg lib m) = snd (connect_loop cfg lib hosts None m)"
proof -
  obtain x m1 where l: "connect_loop cfg lib hosts None m = (x, m1)"
    by (cases "connect_loop cfg lib hosts None m")
  show ?thesis
    using assms l candidate_hosts_returns [of py cfg "email (self m1)"]
    by (cases x) (auto simp: connect_def)
qed

text \<open>
  C9 as the spec states it fails for a host binding left behind by \<open>connect\<close>: a first
  \<open>connect\<close> succeeds, a second \<open>connect\<close> on the same instance fails on every host and
  sets \<open>server\<close> to \<open>None\<close> without touching \<open>_connected_host\<close>, and \<open>disconnect\<close> then
  skips its body, so the host binding is still there when it returns.
\<close>

theorem disconnect_stale_host_counterexample:
  "fst (connect py_ascii cfg_gmail lib_once (start (init ''user@example.org'' ''secret'' 30)))
     = Inr () \<and>
   server (self (snd (connect py_ascii cfg_gmail lib_once
     (snd (connect py_ascii cfg_gmail lib_once
            (start (init ''user@example.org'' ''secret'' 30))))))) = None \<and>
   connected_host (self (snd (disconnect lib_once
     (snd (connect py_ascii cfg_gmail lib_once
       (snd (connect py_ascii cfg_gmail lib_once
              (start (init ''user@example.org'' ''secret'' 30)))))))))
     = Some ''imap.firstmail.ltd''"
proof -
  let ?m0 = "start (init ''user@example.org'' ''secret'' 30)"
  let ?c1 = "\<lparr>email = ''user@example.org'', password = ''secret'', timeout = 30,
                server = Some 0, connected_host = Some ''imap.firstmail.ltd''\<rparr>"
  let ?m1 = "\<lparr>self = ?c1,
        net = [Call_IMAP4_SSL ''imap.firstmail.ltd'' 993 30,
               Call_login 0 ''user@example.org'' ''secret''],
        states = [init ''user@example.org'' ''secret'' 30,
                  \<lparr>email = ''user@example.org'', password = ''secret'', timeout = 30,
                    server = Some 0, connected_host = None\<rparr>, ?c1]\<rparr>"
  have mail: "email (self ?m0) = ''user@example.org''"
    by (simp add: start_def init_def)
  have first: "connect py_ascii cfg_gmail lib_once ?m0 = (Inr (), ?m1)"
    using mail by (simp add: connect_def hosts_example once_loop_first del: connect_loop.simps)
  have "self (snd (connect_loop cfg_gmail lib_once
                     [''imap.firstmail.ltd'', ''imap.notletters.com''] None ?m1))
      = ?c1\<lparr>server := None\<rparr>"
    by (simp add: try_host_def on_error_def lib_once_def lib_ok_def
        cfg_gmail_def issue_def assign_def Let_def)
  moreover have "candidate_hosts py_ascii cfg_gmail (email (self ?m1))
      = Inr [''imap.firstmail.ltd'', ''imap.notletters.com'']"
    by (simp add: hosts_example)
  ultimately have second: "self (snd (connect py_ascii cfg_gmail lib_once ?m1))
      = ?c1\<lparr>server := None\<rparr>"
    by (simp add: connect_snd del: connect_loop.simps)
  have third: "connected_host (self (snd (disconnect lib_once m))) = connected_host (self m)"
    if "server (self m) = None" for m
    using that by (simp add: disconnect_def)
  show ?thesis
    using first second third [of "snd (connect py_ascii cfg_gmail lib_once ?m1)"] by simp
qed

section \<open>Fetching without a connection\<close>



section \<open>Decoding headers\<close>

lemma extract_plain_leaf:
  "extract_bodies py_ascii (Leaf h ''text/plain'' None (Some raw)) = Inr (ascii_strip raw, [])"
  by (simp add: extract_bodies_def py_ascii_def or_utf8_def or_empty_def Let_def ascii_strip_def)

lemma decode_message_plain:
  assumes "take 1 raw \<noteq> ''?''" and "ascii_strip raw \<noteq> []"
  shows "decode_message py_ascii (Pair env raw) = Inr (plain_record (ascii_strip raw))"
proof -
  have m: "message_from_bytes py_ascii raw = Leaf (\<lambda>name. None) ''text/plain'' None (Some raw)"
    using assms(1) by (simp add: py_ascii_def)
  show ?thesis
    using assms(2)
    by (simp add: decode_message_def m extract_plain_leaf decode_maybe_encoded_def plain_record_def)
qed

section \<open>The plain-text fallback\<close>

lemma replace_char_append:
  "replace_char c r (xs @ ys) = replace_char c r xs @ replace_char c r ys"
  by (simp add: replace_char_def)

lemma replace_char_concat_map:
  "replace_char c r (concat (map f s)) = concat (map (\<lambda>x. replace_char c r (f x)) s)"
  by (induction s) (simp_all add: replace_char_append, simp add: replace_char_def)

lemma escape_one:
  "replace_char (CHR 0x27) ''&#x27;''
     (replace_char (CHR 0x22) ''&quot;''
       (replace_char CHR ''>'' ''&gt;''
         (replace_char CHR ''<'' ''&lt;''
           (if x = CHR ''&'' then ''&amp;'' else [x])))) = char_reference x"
  by (simp add: replace_char_def char_reference_def markup_significant_def)

lemma html_escape_each: "html_escape s = concat (map char_reference s)"
proof -
  have "replace_char CHR ''&'' ''&amp;'' s = concat (map (\<lambda>x. if x = CHR ''&'' then ''&amp;'' else [x]) s)"
    by (simp add: replace_char_def)
  then show ?thesis
    by (simp add: html_escape_def replace_char_concat_map escape_one)
qed

lemma unescape_reference: "html_unescape (char_reference c @ rest) = c # html_unescape rest"
  by (simp add: char_reference_def markup_significant_def)

lemma unescape_each: "html_unescape (concat (map char_reference s)) = s"
proof (induction s)
  case Nil
  show ?case by simp
next
  case (Cons c s)
  then show ?case by (simp add: unescape_reference del: html_unescape.simps)
qed

lemma reference_chars:
  "set (char_reference c) \<inter> {CHR ''<'', CHR ''>'', CHR 0x22, CHR 0x27} = {}"
  by (auto simp: char_reference_def markup_significant_def)

lemma escaped_chars:
  "set (concat (map char_reference s)) \<inter> {CHR ''<'', CHR ''>'', CHR 0x22, CHR 0x27} = {}"
  using reference_chars by (induction s) (simp_all add: Int_Un_distrib2)


text \<open>
  C7. When \<open>_extract_bodies\<close> finds no HTML and a plain text that is not empty, the
  \<open>body_html\<close> of the record is the escaped plain text between \<open><pre
  style='white-space:pre-wrap;margin:0'>\<close> and \<open></pre>\<close>. Escaping replaces each
  markup-significant character by its character reference and keeps every other
  character; the escaped text contains no \<open><\<close>, \<open>>\<close> or quote, and reading the references
  back gives the plain text again. So a record whose \<open>body_text\<close> is not empty never has
  an empty \<open>body_html\<close>.
\<close>

theorem plaintext_fallback:
  "(raw_email_of item = Inr raw \<and>
    extract_bodies py (message_from_bytes py raw) = Inr (text, []) \<and> text \<noteq> []
      \<longrightarrow> (\<exists>r. decode_message py item = Inr r \<and> body_text r = text \<and>
                body_html r = PRE_OPEN @ html_escape text @ PRE_CLOSE)) \<and>
   html_escape text = concat (map char_reference text) \<and>
   html_unescape (html_escape text) = text \<and>
   set (html_escape text) \<inter> {CHR ''<'', CHR ''>'', CHR 0x22, CHR 0x27} = {} \<and>
   (decode_message py item = Inr r \<and> body_text r \<noteq> [] \<longrightarrow> body_html r \<noteq> [])"
proof -
  have synth: "\<exists>r. decode_message py item = Inr r \<and> body_text r = text \<and>
                body_html r = PRE_OPEN @ html_escape text @ PRE_CLOSE"
    if "raw_email_of item = Inr raw"
      and "extract_bodies py (message_from_bytes py raw) = Inr (text, [])" and "text \<noteq> []"
    using that by (simp add: decode_message_def plaintext_to_minimal_html_def Let_def)
  have rendered: "body_html r \<noteq> []" if d: "decode_message py item = Inr r" and t: "body_text r \<noteq> []"
  proof -
    from d obtain raw0 where raw0: "raw_email_of item = Inr raw0"
      by (cases "raw_email_of item") (simp_all add: decode_message_def)
    from d raw0 obtain t0 h0 where
      b: "extract_bodies py (message_from_bytes py raw0) = Inr (t0, h0)"
      by (cases "extract_bodies py (message_from_bytes py raw0)")
         (auto simp: decode_message_def Let_def)
    from d raw0 b have r: "body_text r = t0"
      "body_html r = (if h0 = [] \<and> t0 \<noteq> [] then plaintext_to_minimal_html t0 else h0)"
      by (auto simp: decode_message_def Let_def)
    show ?thesis
    proof (cases "h0 = []")
      case True
      with r t show ?thesis by (simp add: plaintext_to_minimal_html_def PRE_CLOSE_def)
    next
      case False
      with r show ?thesis by simp
    qed
  qed
  have "html_unescape (html_escape text) = text"
    by (simp add: html_escape_each unescape_each)
  moreover have "set (html_escape text) \<inter> {CHR ''<'', CHR ''>'', CHR 0x22, CHR 0x27} = {}"
    unfolding html_escape_each by (rule escaped_chars)
  ultimately show ?thesis
    using synth rendered html_escape_each [of "text"] by blast
qed

lemma escape_example: "html_escape ''a < b & c'' = ''a &lt; b &amp; c''"
  by (simp add: html_escape_each char_reference_def markup_significant_def)

theorem plaintext_fallback_witness:
  "raw_email_of (Pair [] ''a < b & c'') = Inr ''a < b & c'' \<and>
   extract_bodies py_ascii (message_from_bytes py_ascii ''a < b & c'') = Inr (''a < b & c'', []) \<and>
   decode_message py_ascii (Pair [] ''a < b & c'') = Inr (plain_record ''a < b & c'') \<and>
   body_html (plain_record ''a < b & c'') = PRE_OPEN @ ''a &lt; b &amp; c'' @ PRE_CLOSE \<and>
   html_unescape ''a &lt; b &amp; c'' = ''a < b & c''"
proof -
  have m: "message_from_bytes py_ascii ''a < b & c''
             = Leaf (\<lambda>name. None) ''text/plain'' None (Some ''a < b & c'')"
    by (simp add: py_ascii_def)
  have s: "ascii_strip ''a < b & c'' = ''a < b & c''"
    by (simp add: ascii_strip_def is_ascii_space_def)
  have x: "extract_bodies py_ascii (message_from_bytes py_ascii ''a < b & c'')
             = Inr (''a < b & c'', [])"
    using extract_plain_leaf [of "\<lambda>name. None" "''a < b & c''"] by (simp only: m s)
  have d: "decode_message py_ascii (Pair [] ''a < b & c'') = Inr (plain_record ''a < b & c'')"
    using decode_message_plain [of "''a < b & c''" "[]"] by (simp add: s)
  have "html_unescape (html_escape ''a < b & c'') = ''a < b & c''"
    using plaintext_fallback [of "Pair [] ''a < b & c''" "''a < b & c''" py_ascii "''a < b & c''"
            "plain_record ''a < b & c''"]
    by blast
  then have u: "html_unescape ''a &lt; b &amp; c'' = ''a < b & c''"
    by (simp only: escape_example)
  have h: "body_html (plain_record ''a < b & c'') = PRE_OPEN @ ''a &lt; b &amp; c'' @ PRE_CLOSE"
    by (simp add: plain_record_def plaintext_to_minimal_html_def escape_example)
  have "raw_email_of (Pair [] ''a < b & c'') = Inr ''a < b & c''"
    by simp
  with x d h u show ?thesis
    by blast
qed


section \<open>Fetching messages: properties\<close>

lemma fetch_loop_step:
  "(\<exists>e. fetch_loop py lib h items (i # rest) msgs m = (Inl e, issue (Call_fetch h i items) m)) \<or>
   fetch_loop py lib h items (i # rest) msgs m
     = fetch_loop py lib h items rest msgs (issue (Call_fetch h i items) m) \<or>
   (\<exists>r. fetch_loop py lib h items (i # rest) msgs m
     = fetch_loop py lib h items rest (msgs @ [r]) (issue (Call_fetch h i items) m))"
  by (auto simp: Let_def split: sum.splits prod.splits list.splits fetch_item.splits)

lemma fetch_loop_calls:
  "\<exists>k. net (snd (fetch_loop py lib h items ids msgs m))
         = net m @ map (\<lambda>i. Call_fetch h i items) (take k ids)"
proof (induction ids arbitrary: msgs m)
  case Nil
  then show ?case by simp
next
  case (Cons i rest)
  let ?m1 = "issue (Call_fetch h i items) m"
  have n1: "net ?m1 = net m @ [Call_fetch h i items]" by (simp add: issue_def)
  from fetch_loop_step [of py lib h items i rest msgs m]
  consider (stop) e where "fetch_loop py lib h items (i # rest) msgs m = (Inl e, ?m1)"
    | (go) msgs' where "fetch_loop py lib h items (i # rest) msgs m
                          = fetch_loop py lib h items rest msgs' ?m1"
    by blast
  then show ?case
  proof cases
    case stop
    with n1 have "net (snd (fetch_loop py lib h items (i # rest) msgs m))
         = net m @ map (\<lambda>i. Call_fetch h i items) (take 1 (i # rest))" by simp
    then show ?thesis by blast
  next
    case go
    from Cons.IH [of msgs' ?m1] obtain k where
      "net (snd (fetch_loop py lib h items rest msgs' ?m1))
         = net ?m1 @ map (\<lambda>i. Call_fetch h i items) (take k rest)" by blast
    with go n1 have "net (snd (fetch_loop py lib h items (i # rest) msgs m))
         = net m @ map (\<lambda>i. Call_fetch h i items) (take (Suc k) (i # rest))" by simp
    then show ?thesis by blast
  qed
qed

lemma fetch_loop_done:
  "fetch_loop py lib h items ids msgs m = (Inr out, m') \<Longrightarrow>
     net m' = net m @ map (\<lambda>i. Call_fetch h i items) ids \<and>
     length out \<le> length msgs + length ids"
proof (induction ids arbitrary: msgs m)
  case Nil
  then show ?case by simp
next
  case (Cons i rest)
  let ?m1 = "issue (Call_fetch h i items) m"
  have n1: "net ?m1 = net m @ [Call_fetch h i items]" by (simp add: issue_def)
  from fetch_loop_step [of py lib h items i rest msgs m] Cons.prems
  consider (same) "fetch_loop py lib h items rest msgs ?m1 = (Inr out, m')"
    | (more) r where "fetch_loop py lib h items rest (msgs @ [r]) ?m1 = (Inr out, m')"
    by auto
  then show ?case
  proof cases
    case same
    from Cons.IH [OF same] n1 show ?thesis by simp
  next
    case more
    from Cons.IH [OF more] n1 show ?thesis by simp
  qed
qed

lemma all_fetch_calls:
  "list_all (keeps_seen_flags mailbox mark_seen)
     (map (\<lambda>i. Call_fetch h i (if mark_seen then ''(RFC822)'' else ''(BODY.PEEK[])'')) ids)"
  by (induction ids) simp_all

lemma snd_rev_result:
  "snd (case p of (Inl e, m3) \<Rightarrow> (Inl e, m3) | (Inr ms, m3) \<Rightarrow> (Inr (rev ms), m3)) = snd p"
  by (cases p; cases "fst p") auto

lemma get_messages_snd:
  assumes "server (self m) = Some h"
    and "items = (if mark_seen then ''(RFC822)'' else ''(BODY.PEEK[])'')"
    and "m1 = issue (Call_select h mailbox True) m"
    and "m2 = issue (Call_search h criteria) m1"
  shows "snd (get_messages py lib mailbox criteria limit mark_seen m) = m1 \<or>
         snd (get_messages py lib mailbox criteria limit mark_seen m) = m2 \<or>
         (\<exists>ids. snd (get_messages py lib mailbox criteria limit mark_seen m)
                  = snd (fetch_loop py lib h items ids [] m2))"
proof (cases mark_seen)
  case True
  with assms show ?thesis
    by (auto simp: get_messages_def Let_def snd_rev_result split: sum.splits prod.splits)
next
  case False
  with assms show ?thesis
    by (auto simp: get_messages_def Let_def snd_rev_result split: sum.splits prod.splits)
qed

lemma get_messages_net:
  "\<exists>cs. net (snd (get_messages py lib mailbox criteria limit mark_seen m)) = net m @ cs \<and>
        list_all (keeps_seen_flags mailbox mark_seen) cs"
proof (cases "server (self m)")
  case None
  then show ?thesis by (simp add: get_messages_def)
next
  case (Some h)
  define items where "items = (if mark_seen then ''(RFC822)'' else ''(BODY.PEEK[])'')"
  define m1 where "m1 = issue (Call_select h mailbox True) m"
  define m2 where "m2 = issue (Call_search h criteria) m1"
  have n1: "net m1 = net m @ [Call_select h mailbox True]"
    by (simp add: m1_def issue_def)
  have n2: "net m2 = net m @ [Call_select h mailbox True, Call_search h criteria]"
    by (simp add: m2_def m1_def issue_def)
  have loop: "\<exists>cs. net (snd (fetch_loop py lib h items ids [] m2)) = net m @ cs \<and>
        list_all (keeps_seen_flags mailbox mark_seen) cs" for ids
  proof -
    obtain k where "net (snd (fetch_loop py lib h items ids [] m2))
         = net m2 @ map (\<lambda>i. Call_fetch h i items) (take k ids)"
      using fetch_loop_calls by blast
    with n2 have "net (snd (fetch_loop py lib h items ids [] m2))
         = net m @ ([Call_select h mailbox True, Call_search h criteria] @
                    map (\<lambda>i. Call_fetch h i items) (take k ids))" by simp
    moreover have "list_all (keeps_seen_flags mailbox mark_seen)
       ([Call_select h mailbox True, Call_search h criteria] @
                    map (\<lambda>i. Call_fetch h i items) (take k ids))"
      using all_fetch_calls [of mailbox mark_seen h "take k ids"] by (simp add: items_def)
    ultimately show ?thesis by blast
  qed
  from get_messages_snd [OF Some items_def m1_def m2_def, of py lib limit]
  consider "snd (get_messages py lib mailbox criteria limit mark_seen m) = m1"
    | "snd (get_messages py lib mailbox criteria limit mark_seen m) = m2"
    | ids where "snd (get_messages py lib mailbox criteria limit mark_seen m)
                  = snd (fetch_loop py lib h items ids [] m2)"
    by blast
  then show ?thesis
  proof cases
    case 1
    with n1 show ?thesis by simp
  next
    case 2
    with n2 show ?thesis by simp
  next
    case 3
    with loop [of ids] show ?thesis by simp
  qed
qed

text \<open>
  C3. Every call that \<open>get_messages\<close> makes keeps to the seen flags: each \<open>select\<close> is a
  read-only select of the given mailbox (whether or not \<open>mark_seen\<close> is set), each
  \<open>fetch\<close> asks for \<open>(BODY.PEEK[])\<close> when \<open>mark_seen\<close> is false and for \<open>(RFC822)\<close> when it
  is true, and beside \<open>search\<close> no other call is made. The calls made before are kept as
  they were.
\<close>

theorem get_messages_keeps_seen_flags:
  "list_all (keeps_seen_flags mailbox mark_seen)
     (new_calls m (snd (get_messages py lib mailbox criteria limit mark_seen m))) \<and>
   take (length (net m)) (net (snd (get_messages py lib mailbox criteria limit mark_seen m)))
     = net m"
proof -
  obtain cs where "net (snd (get_messages py lib mailbox criteria limit mark_seen m)) = net m @ cs"
    and "list_all (keeps_seen_flags mailbox mark_seen) cs"
    using get_messages_net by blast
  then show ?thesis by (simp add: new_calls_def)
qed

section \<open>Fetching messages: the batch\<close>

lemma decode_mail:
  "\<not> is_ascii_space d \<Longrightarrow>
     decode_message py_ascii (Pair env (CHR ''m'' # CHR ''a'' # CHR ''i'' # CHR ''l'' # CHR '' '' # [d]))
       = Inr (plain_record (''mail '' @ [d]))"
proof -
  assume d: "\<not> is_ascii_space d"
  then have "ascii_strip [CHR ''m'', CHR ''a'', CHR ''i'', CHR ''l'', CHR '' '', d]
               = [CHR ''m'', CHR ''a'', CHR ''i'', CHR ''l'', CHR '' '', d]"
    by (simp add: ascii_strip_def is_ascii_space_def)
  then show ?thesis
    using decode_message_plain [of "[CHR ''m'', CHR ''a'', CHR ''i'', CHR ''l'', CHR '' '', d]" env]
    by simp
qed

lemma search_ids: "bytes_split (or_empty (Some ''1 2 3'')) = [''1'', ''2'', ''3'']"
  by (simp add: bytes_split_def or_empty_def is_ascii_space_def)

text \<open>
  C1, at the limit 0. The mailbox holds the messages 1, 2 and 3 and the caller asks for at
  most 0 messages: \<open>msg_ids[-limit:]\<close> is then \<open>msg_ids[0:]\<close>, the whole list, so
  \<open>get_messages\<close> fetches all three messages and returns three records, newest first. The
  spec promises a batch of at most \<open>limit\<close> records and a fetch of exactly the last
  \<open>limit\<close> identifiers.
\<close>

theorem get_messages_limit_zero:
  "get_messages py_ascii lib_ok ''INBOX'' ''ALL'' 0 False connected_client
   = (Inr [plain_record ''mail 3'', plain_record ''mail 2'', plain_record ''mail 1''],
      connected_client
        \<lparr>net := net connected_client @
           [Call_select 0 ''INBOX'' True, Call_search 0 ''ALL'',
            Call_fetch 0 ''1'' ''(BODY.PEEK[])'', Call_fetch 0 ''2'' ''(BODY.PEEK[])'',
            Call_fetch 0 ''3'' ''(BODY.PEEK[])'']\<rparr>)"
  by (simp add: get_messages_def connected_client_server lib_ok_def issue_def py_index_def
      search_ids py_slice_from_def decode_mail is_ascii_space_def Let_def)

text \<open>
  With a limit of 2 the last two identifiers are fetched, in ascending order, and the
  records are returned newest first; with a negative limit \<open>-k\<close> the first \<open>k\<close>
  identifiers are dropped instead.
\<close>

lemma get_messages_last_two:
  "get_messages py_ascii lib_ok ''INBOX'' ''ALL'' 2 False connected_client
   = (Inr [plain_record ''mail 3'', plain_record ''mail 2''],
      connected_client
        \<lparr>net := net connected_client @
           [Call_select 0 ''INBOX'' True, Call_search 0 ''ALL'',
            Call_fetch 0 ''2'' ''(BODY.PEEK[])'', Call_fetch 0 ''3'' ''(BODY.PEEK[])'']\<rparr>)"
  by (simp add: get_messages_def connected_client_server lib_ok_def issue_def py_index_def
      search_ids py_slice_from_def decode_mail is_ascii_space_def Let_def)

lemma get_messages_negative_limit:
  "get_messages py_ascii lib_ok ''INBOX'' ''ALL'' (- 1) False connected_client
   = (Inr [plain_record ''mail 3'', plain_record ''mail 2''],
      connected_client
        \<lparr>net := net connected_client @
           [Call_select 0 ''INBOX'' True, Call_search 0 ''ALL'',
            Call_fetch 0 ''2'' ''(BODY.PEEK[])'', Call_fetch 0 ''3'' ''(BODY.PEEK[])'']\<rparr>)"
  by (simp add: get_messages_def connected_client_server lib_ok_def issue_def py_index_def
      search_ids py_slice_from_def decode_mail is_ascii_space_def Let_def)

text \<open>
  A fetch that answers with a status other than \<open>OK\<close>, or with \<open>None\<close> as its first
  element, is skipped and the batch goes on.
\<close>

lemma get_messages_skips:
  "get_messages py_ascii lib_gaps ''INBOX'' ''ALL'' 5 True connected_client
   = (Inr [plain_record ''mail 1''],
      connected_client
        \<lparr>net := net connected_client @
           [Call_select 0 ''INBOX'' True, Call_search 0 ''ALL'',
            Call_fetch 0 ''1'' ''(RFC822)'', Call_fetch 0 ''2'' ''(RFC822)'',
            Call_fetch 0 ''3'' ''(RFC822)'']\<rparr>)"
  by (simp add: get_messages_def connected_client_server lib_gaps_def lib_ok_def issue_def
      py_index_def search_ids py_slice_from_def decode_mail is_ascii_space_def Let_def)

text \<open>
  A single-part message that names an unknown charset makes \<open>_extract_bodies\<close> raise
  \<open>LookupError\<close>, which leaves \<open>get_messages\<close>: the batch is lost. (In a multipart
  message the same part is decoded as UTF-8 instead.)
\<close>

lemma decode_unknown_charset:
  "decode_message py_ascii (Pair [] ''?mail 2'')
     = Inl (OtherException ''LookupError'' ''unknown encoding: x-unknown'')"
  by (simp add: decode_message_def extract_bodies_def py_ascii_def or_utf8_def or_empty_def Let_def)

lemma get_messages_unknown_charset:
  "fst (get_messages py_ascii lib_unknown_charset ''INBOX'' ''ALL'' 3 False connected_client)
   = Inl (OtherException ''LookupError'' ''unknown encoding: x-unknown'')"
  by (simp add: get_messages_def connected_client_server lib_unknown_charset_def lib_ok_def
      issue_def py_index_def search_ids py_slice_from_def decode_mail decode_unknown_charset
      is_ascii_space_def Let_def)

text \<open>
  What holds for every limit: a call that returns has fetched exactly the identifiers
  \<open>msg_ids[-limit:]\<close>, in their order, and returns at most one record for each. For a
  limit of at least 1 these are the last \<open>limit\<close> identifiers, so the batch has at most
  \<open>limit\<close> records.
\<close>

lemma slice_last:
  "1 \<le> L \<Longrightarrow> L \<le> int (length ids) \<Longrightarrow>
     py_slice_from (- L) ids = drop (length ids - nat L) ids"
  by (simp add: py_slice_from_def Let_def max_def nat_diff_distrib)

lemma slice_length: "1 \<le> L \<Longrightarrow> length (py_slice_from (- L) ids) \<le> nat L"
  by (auto simp: py_slice_from_def Let_def max_def)

lemma ids_fetched_map: "ids_fetched (map (\<lambda>i. Call_fetch h i items) ids) = ids"
  by (induction ids) simp_all

lemma get_messages_returns:
  assumes "get_messages py lib mailbox criteria limit mark_seen m = (Inr out, m')"
  shows "\<exists>h status d ds.
           server (self m) = Some h \<and>
           search lib (net m @ [Call_select h mailbox True]) h criteria = Inr (status, d # ds) \<and>
           ids_fetched (new_calls m m') = py_slice_from (- limit) (bytes_split (or_empty d)) \<and>
           length out \<le> length (py_slice_from (- limit) (bytes_split (or_empty d)))"
proof -
  obtain h where h: "server (self m) = Some h"
    using assms by (cases "server (self m)") (simp_all add: get_messages_def)
  define items where "items = (if mark_seen then ''(RFC822)'' else ''(BODY.PEEK[])'')"
  define m1 where "m1 = issue (Call_select h mailbox True) m"
  define m2 where "m2 = issue (Call_search h criteria) m1"
  have n1: "net m1 = net m @ [Call_select h mailbox True]"
    by (simp add: m1_def issue_def)
  have n2: "net m2 = net m @ [Call_select h mailbox True, Call_search h criteria]"
    by (simp add: m2_def m1_def issue_def)
  from assms h have sel: "select lib (net m) h mailbox True = Inr ''OK''"
    by (auto simp: get_messages_def Let_def split: sum.splits if_splits)
  from assms h sel obtain status data where
    s: "search lib (net m1) h criteria = Inr (status, data)"
    by (cases "search lib (net m1) h criteria") (auto simp: get_messages_def Let_def m1_def)
  from assms h sel s have ok: "status = ''OK''"
    by (auto simp: get_messages_def Let_def m1_def split: if_splits)
  from assms h sel s ok obtain d ds where d: "data = d # ds"
    by (cases data) (auto simp: get_messages_def Let_def m1_def py_index_def)
  define msg_ids where "msg_ids = bytes_split (or_empty d)"
  define ids where "ids = py_slice_from (- limit) msg_ids"
  have eq: "get_messages py lib mailbox criteria limit mark_seen m =
      (if msg_ids = [] then (Inr [], m2)
       else (case fetch_loop py lib h items ids [] m2 of
               (Inl e, m3) \<Rightarrow> (Inl e, m3)
             | (Inr ms, m3) \<Rightarrow> (Inr (rev ms), m3)))"
    using h sel s ok d
    by (simp add: get_messages_def Let_def m1_def m2_def py_index_def items_def ids_def
        msg_ids_def)
  have rest: "(msg_ids = [] \<and> out = [] \<and> m' = m2) \<or>
        (\<exists>ms. fetch_loop py lib h items ids [] m2 = (Inr ms, m') \<and> out = rev ms)"
  proof (cases "msg_ids = []")
    case True
    with eq assms show ?thesis by simp
  next
    case False
    obtain r m3 where f: "fetch_loop py lib h items ids [] m2 = (r, m3)"
      by (cases "fetch_loop py lib h items ids [] m2")
    with False eq assms show ?thesis by (cases r) auto
  qed
  have "ids_fetched (new_calls m m') = ids \<and> length out \<le> length ids"
  proof (cases "msg_ids = []")
    case True
    then have e: "ids = []" by (simp add: ids_def py_slice_from_def)
    with rest have "out = []" and "m' = m2" by auto
    with e n2 show ?thesis by (simp add: new_calls_def)
  next
    case False
    with rest obtain ms where ms: "fetch_loop py lib h items ids [] m2 = (Inr ms, m')" "out = rev ms"
      by blast
    from fetch_loop_done [OF ms(1)] n2 ms(2) show ?thesis
      by (simp add: new_calls_def ids_fetched_map)
  qed
  with h s d n1 show ?thesis
    by (auto simp: ids_def msg_ids_def)
qed

lemma get_messages_bounded:
  assumes "get_messages py lib mailbox criteria limit mark_seen m = (Inr out, m')"
    and "1 \<le> limit"
  shows "length out \<le> nat limit"
  using get_messages_returns [OF assms(1)] slice_length [OF assms(2)]
  by (meson le_trans)

end
